theory Spec2Isabelle
  imports Complex_Main "HOL-Library.Char_ord" "HOL-Library.List_Lexorder" "HOL-Library.Multiset"
    "HOL-Library.Word"
begin

section \<open>Query plan (src/engine/query_plan.py)\<close>

text \<open>
  The pydantic models of the plan, once validated. A \<open>Literal[...]\<close> type is a
  datatype with one constructor per literal; an \<open>Optional[int]\<close> is an \<open>int option\<close>.
  The eleven constructors of \<open>dimension\<close> are the literals of \<open>FilterField\<close>;
  \<open>GroupByField\<close> is the list of the nine of them that the group-by literal admits.
\<close>

datatype intent = Aggregate | TopN | Trend | Unknown

datatype metric = Revenue | Cost | Profit

datatype dimension =
  DYear | DQuarter | DMonth | DWeek
  | DCountry | DMediaCategory | DMediaName
  | DCommunication | DCampaignCategory
  | DProduct | DCampaignName

datatype range_type = RAll | RYear | RQuarter | RLastQuarter | RLastNYears

record time_range_rec =
  tr_type :: range_type
  tr_year :: "int option"
  tr_quarter :: "int option"
  n_years :: "int option"

datatype filter_op = OpEq

text \<open>
  The \<open>value: Any\<close> of a filter is whatever the producer of the plan wrote: the models
  are polymorphic in it.
\<close>

record 'v filter_of =
  f_field :: dimension
  f_op :: filter_op
  f_value :: 'v

datatype direction = Asc | Desc

record sort_by_rec =
  sb_field :: metric
  sb_direction :: direction

record 'v plan_of =
  intent :: intent
  metrics :: "metric list"
  groupby :: "dimension list"
  time_range :: time_range_rec
  filters :: "'v filter_of list"
  top_n :: "int option"
  sort_by :: "sort_by_rec option"

text \<open>
  A cell of the table, as far as the engine looks at it: a number, a text, or the missing
  value (NaN / None). The engine is modelled on the plans whose filter values are such
  scalars.
\<close>

datatype val = Num rat | Str string | Null

type_synonym filter_rec = "val filter_of"

type_synonym query_plan = "val plan_of"

section \<open>Normalized table\<close>

text \<open>
  A row of the normalized table the engine receives. \<open>year\<close>, \<open>quarter\<close>,
  \<open>month\<close> and \<open>week\<close> are integers, the dimensional columns are texts that may
  be missing (\<open>None\<close>). The measures are the cells of int64 columns, 64-bit words read
  as signed integers: what numpy computes on them wraps around. A measure column of
  floating-point numbers is outside this model.
\<close>

record row =
  year :: int
  quarter :: int
  month :: int
  week :: int
  country :: "string option"
  media_category :: "string option"
  media_name :: "string option"
  communication :: "string option"
  campaign_category :: "string option"
  product_col :: "string option"
  campaign_name :: "string option"
  revenue :: "64 word"
  cost :: "64 word"
  profit :: "64 word"
  row_id :: string

section \<open>Query engine (src/engine/query_engine.py)\<close>

text \<open>
  Every \<open>raise\<close> of the engine is a \<open>ValueError\<close> with the message of the source;
  \<open>int(nan)\<close> raises the \<open>ValueError\<close> of Python itself, a column that a
  frame does not have raises \<open>KeyError\<close>, a method that a value does not have raises
  \<open>AttributeError\<close>. \<open>NotATable\<close> marks the run of a plan whose time
  range is the expression \<open>df[mask1] & mask2\<close>: pandas raises a \<open>TypeError\<close>
  while it evaluates that expression on a table with a column of texts, and what it
  evaluates to otherwise is no selection of rows; neither is part of this model.
\<close>

datatype error = ValueError string | KeyError string | AttributeError string | NotATable

text \<open>
  The value of \<open>_apply_time_range\<close>: a table of rows, or the expression
  \<open>df[mask1] & mask2\<close>, the element-wise \<open>&\<close> of a frame with a boolean series,
  which is kept with its two operands and not evaluated: no run that reaches it returns
  rows.
\<close>

datatype frame = Table "row list" | FrameAndSeries "row list" "bool list"

text \<open>\<open>Series.max()\<close> of an integer column: NaN (\<open>None\<close>) on the empty column.\<close>

fun column_max :: "int list \<Rightarrow> int option" where
  "column_max [] = None"
| "column_max (x # xs) = (case column_max xs of None \<Rightarrow> Some x | Some m \<Rightarrow> Some (max x m))"

definition slice_last_quarter :: "row list \<Rightarrow> error + frame" where
  "slice_last_quarter df =
     (case column_max (map year df) of
        None \<Rightarrow> Inl (ValueError ''cannot convert float NaN to integer'')
      | Some max_year \<Rightarrow>
          (case column_max (map quarter (filter (\<lambda>r. year r = max_year) df)) of
             None \<Rightarrow> Inl (ValueError ''cannot convert float NaN to integer'')
           | Some max_q \<Rightarrow>
               (let (y, q) = (if max_q = 1 then (max_year - 1, 4) else (max_year, max_q - 1))
                in Inr (Table (filter (\<lambda>r. year r = y \<and> quarter r = q) df)))))"

text \<open>\<open>int(tr.n_years or 3)\<close>: \<open>None\<close> and \<open>0\<close> are both falsy.\<close>

definition n_years_or_3 :: "int option \<Rightarrow> int" where
  "n_years_or_3 n = (case n of None \<Rightarrow> 3 | Some k \<Rightarrow> if k = 0 then 3 else k)"

definition apply_time_range :: "row list \<Rightarrow> query_plan \<Rightarrow> error + frame" where
  "apply_time_range df plan =
     (let tr = time_range plan in
      case tr_type tr of
        RAll \<Rightarrow> Inr (Table df)
      | RYear \<Rightarrow>
          (case tr_year tr of
             None \<Rightarrow> Inl (ValueError ''time_range.year is required for type=year'')
           | Some y \<Rightarrow> Inr (Table (filter (\<lambda>r. year r = y) df)))
      | RQuarter \<Rightarrow>
          (case (tr_year tr, tr_quarter tr) of
             (Some y, Some q) \<Rightarrow> Inr (Table (filter (\<lambda>r. year r = y \<and> quarter r = q) df))
           | _ \<Rightarrow> Inl (ValueError
                 ''time_range.year and time_range.quarter are required for type=quarter''))
      | RLastQuarter \<Rightarrow> slice_last_quarter df
      | RLastNYears \<Rightarrow>
          (if tr_year tr = None
           then Inl (ValueError ''time_range.year is required for type=last_n_years'')
           else
             (let n = n_years_or_3 (n_years tr) in
              case column_max (map year df) of
                None \<Rightarrow> Inl (ValueError ''cannot convert float NaN to integer'')
              | Some max_year \<Rightarrow>
                  (let start_year = max_year - n + 1
                   in Inr (FrameAndSeries (filter (\<lambda>r. year r \<ge> start_year) df)
                                          (map (\<lambda>r. year r \<le> max_year) df))))))"


subsection \<open>Columns of a row\<close>

definition text_val :: "string option \<Rightarrow> val" where
  "text_val s = (case s of None \<Rightarrow> Null | Some t \<Rightarrow> Str t)"

fun dim_value :: "dimension \<Rightarrow> row \<Rightarrow> val" where
  "dim_value DYear r = Num (of_int (year r))"
| "dim_value DQuarter r = Num (of_int (quarter r))"
| "dim_value DMonth r = Num (of_int (month r))"
| "dim_value DWeek r = Num (of_int (week r))"
| "dim_value DCountry r = text_val (country r)"
| "dim_value DMediaCategory r = text_val (media_category r)"
| "dim_value DMediaName r = text_val (media_name r)"
| "dim_value DCommunication r = text_val (communication r)"
| "dim_value DCampaignCategory r = text_val (campaign_category r)"
| "dim_value DProduct r = text_val (product_col r)"
| "dim_value DCampaignName r = text_val (campaign_name r)"

fun metric_value :: "metric \<Rightarrow> row \<Rightarrow> 64 word" where
  "metric_value Revenue r = revenue r"
| "metric_value Cost r = cost r"
| "metric_value Profit r = profit r"

text \<open>An int64 value as the cell of a result.\<close>

definition int64_val :: "64 word \<Rightarrow> val" where
  "int64_val w = Num (of_int (sint w))"

text \<open>
  \<open>sum\<close> of an int64 column: the sum in 64-bit arithmetic, which wraps around
  silently; 0 on the empty column.
\<close>

definition series_sum :: "64 word list \<Rightarrow> 64 word" where
  "series_sum ws = sum_list ws"

subsection \<open>Filters\<close>

text \<open>
  \<open>out[f.field] == f.value\<close>, one cell against the scalar: a missing cell equals
  nothing, a number never equals a text.
\<close>

fun series_eq :: "val \<Rightarrow> val \<Rightarrow> bool" where
  "series_eq (Num a) (Num b) = (a = b)"
| "series_eq (Str a) (Str b) = (a = b)"
| "series_eq _ _ = False"

definition matches :: "filter_rec \<Rightarrow> row \<Rightarrow> bool" where
  "matches f r = series_eq (dim_value (f_field f) r) (f_value f)"

fun filter_loop :: "row list \<Rightarrow> filter_rec list \<Rightarrow> row list" where
  "filter_loop out [] = out"
| "filter_loop out (f # fs) =
     filter_loop (if f_op f = OpEq then filter (matches f) out else out) fs"

definition apply_filters :: "row list \<Rightarrow> query_plan \<Rightarrow> row list" where
  "apply_filters df plan = filter_loop df (filters plan)"

subsection \<open>Order of the cells\<close>

text \<open>
  The order pandas sorts a column by: numbers by value, texts by code point, the missing
  value last. A column holds numbers or texts, never both; between them the order is
  fixed as numbers first.
\<close>

instantiation val :: linorder
begin

fun less_eq_val :: "val \<Rightarrow> val \<Rightarrow> bool" where
  "less_eq_val (Num a) (Num b) = (a \<le> b)"
| "less_eq_val (Num a) (Str b) = True"
| "less_eq_val (Num a) Null = True"
| "less_eq_val (Str a) (Num b) = False"
| "less_eq_val (Str a) (Str b) = (a \<le> b)"
| "less_eq_val (Str a) Null = True"
| "less_eq_val Null (Num b) = False"
| "less_eq_val Null (Str b) = False"
| "less_eq_val Null Null = True"

definition less_val :: "val \<Rightarrow> val \<Rightarrow> bool" where
  "less_val a b = (a \<le> b \<and> \<not> b \<le> a)"

instance
proof
  fix x y z :: val
  show "(x < y) = (x \<le> y \<and> \<not> y \<le> x)"
    by (simp add: less_val_def)
  show "x \<le> x"
    by (cases x) simp_all
  show "x \<le> y \<Longrightarrow> y \<le> z \<Longrightarrow> x \<le> z"
    by (cases x; cases y; cases z) auto
  show "x \<le> y \<Longrightarrow> y \<le> x \<Longrightarrow> x = y"
    by (cases x; cases y) auto
  show "x \<le> y \<or> y \<le> x"
    by (cases x; cases y) auto
qed

end

subsection \<open>Grouping and summing\<close>

datatype column = DimCol dimension | MetCol metric

type_synonym result_row = "(column \<times> val) list"

record result_df =
  res_columns :: "column list"
  res_rows :: "result_row list"

text \<open>The keys of \<open>{m: "sum" for m in metrics}\<close>: each metric once, at its first place.\<close>

fun dict_keys :: "'a list \<Rightarrow> 'a list" where
  "dict_keys [] = []"
| "dict_keys (x # xs) = x # dict_keys (filter (\<lambda>y. y \<noteq> x) xs)"

definition key_of :: "dimension list \<Rightarrow> row \<Rightarrow> val list" where
  "key_of g r = map (\<lambda>d. dim_value d r) g"

text \<open>
  \<open>groupby(g, dropna=False)\<close> with the default \<open>sort=True\<close>: one group per distinct
  key, a missing value being a key like any other, the groups in the ascending order of
  their keys.
\<close>

definition group_keys :: "dimension list \<Rightarrow> row list \<Rightarrow> val list list" where
  "group_keys g df = sort (remdups (map (key_of g) df))"

definition group_sum :: "dimension list \<Rightarrow> row list \<Rightarrow> val list \<Rightarrow> metric \<Rightarrow> 64 word" where
  "group_sum g df k m = series_sum (map (metric_value m) (filter (\<lambda>r. key_of g r = k) df))"

definition group_row :: "dimension list \<Rightarrow> metric list \<Rightarrow> row list \<Rightarrow> val list \<Rightarrow> result_row" where
  "group_row g ms df k =
     zip (map DimCol g) k @ map (\<lambda>m. (MetCol m, int64_val (group_sum g df k m))) ms"

text \<open>
  \<open>df.groupby(g, dropna=False).agg(agg_map).reset_index()\<close>. pandas refuses an empty
  list of keys, and \<open>reset_index\<close> refuses to insert the same column twice.
\<close>

definition groupby_agg :: "dimension list \<Rightarrow> metric list \<Rightarrow> row list \<Rightarrow> error + result_df" where
  "groupby_agg g ms df =
     (if g = [] then Inl (ValueError ''No group keys passed!'')
      else if \<not> distinct g then Inl (ValueError ''cannot insert column, already exists'')
      else Inr \<lparr>res_columns = map DimCol g @ map MetCol ms,
                res_rows = map (group_row g ms df) (group_keys g df)\<rparr>)"

definition run_aggregate :: "row list \<Rightarrow> query_plan \<Rightarrow> error + result_df" where
  "run_aggregate df plan =
     (if metrics plan = [] then Inl (ValueError ''aggregate requires at least one metric'')
      else
        (let agg_map = dict_keys (metrics plan) in
         if groupby plan = []
         then Inr \<lparr>res_columns = map MetCol agg_map,
                   res_rows = [map (\<lambda>m. (MetCol m, int64_val (series_sum (map (metric_value m) df))))
                                   agg_map]\<rparr>
         else groupby_agg (groupby plan) agg_map df))"

subsection \<open>Sorting and truncating\<close>

text \<open>
  \<open>sort_values\<close> leaves the sorting to numpy, with the default \<open>kind\<close>, which is not
  asked to be stable. The ascending sorter is therefore a parameter \<open>srt\<close> of the model:
  \<open>srt key xs\<close> is \<open>xs\<close> reordered by numpy. For \<open>ascending=False\<close> pandas
  reverses the rows, sorts them ascending and reverses the outcome. A column of \<open>by\<close>
  that the frame does not have raises \<open>KeyError\<close>.
\<close>

type_synonym sorter = "(result_row \<Rightarrow> val list) \<Rightarrow> result_row list \<Rightarrow> result_row list"

definition sorter_ok :: "sorter \<Rightarrow> bool" where
  "sorter_ok srt \<longleftrightarrow> (\<forall>key xs. sorted (map key (srt key xs)) \<and> mset (srt key xs) = mset xs)"

fun metric_name :: "metric \<Rightarrow> string" where
  "metric_name Revenue = ''revenue''"
| "metric_name Cost = ''cost''"
| "metric_name Profit = ''profit''"

fun dimension_name :: "dimension \<Rightarrow> string" where
  "dimension_name DYear = ''year''"
| "dimension_name DQuarter = ''quarter''"
| "dimension_name DMonth = ''month''"
| "dimension_name DWeek = ''week''"
| "dimension_name DCountry = ''country''"
| "dimension_name DMediaCategory = ''media_category''"
| "dimension_name DMediaName = ''media_name''"
| "dimension_name DCommunication = ''communication''"
| "dimension_name DCampaignCategory = ''campaign_category''"
| "dimension_name DProduct = ''product''"
| "dimension_name DCampaignName = ''campaign_name''"

fun column_name :: "column \<Rightarrow> string" where
  "column_name (DimCol d) = dimension_name d"
| "column_name (MetCol m) = metric_name m"

definition cell :: "column \<Rightarrow> result_row \<Rightarrow> val" where
  "cell c r = (case map_of r c of Some v \<Rightarrow> v | None \<Rightarrow> Null)"

definition sort_key_of :: "column list \<Rightarrow> result_row \<Rightarrow> val list" where
  "sort_key_of by r = map (\<lambda>c. cell c r) by"

definition sort_values :: "sorter \<Rightarrow> column list \<Rightarrow> bool \<Rightarrow> result_df \<Rightarrow> error + result_df" where
  "sort_values srt by ascending res =
     (case filter (\<lambda>c. c \<notin> set (res_columns res)) by of
        c # _ \<Rightarrow> Inl (KeyError (column_name c))
      | [] \<Rightarrow>
          Inr (res\<lparr>res_rows :=
                 (if ascending then srt (sort_key_of by) (res_rows res)
                  else rev (srt (sort_key_of by) (rev (res_rows res))))\<rparr>))"

text \<open>\<open>head(n)\<close>: the first \<open>n\<close> rows, and for a negative \<open>n\<close> all but the last \<open>-n\<close>.\<close>

definition head :: "int \<Rightarrow> result_df \<Rightarrow> result_df" where
  "head n res =
     res\<lparr>res_rows :=
       (if 0 \<le> n then take (nat n) (res_rows res)
        else take (nat (int (length (res_rows res)) + n)) (res_rows res))\<rparr>"

definition run_top_n :: "sorter \<Rightarrow> row list \<Rightarrow> query_plan \<Rightarrow> error + result_df" where
  "run_top_n srt df plan =
     (if groupby plan = [] then Inl (ValueError ''top_n requires groupby (e.g., campaign_name)'')
      else
        (case (top_n plan, sort_by plan) of
           (Some n, Some sb) \<Rightarrow>
             (let ms = (if metrics plan = [] then [Revenue] else metrics plan);
                  agg_map = dict_keys ms
              in case groupby_agg (groupby plan) agg_map df of
                   Inl e \<Rightarrow> Inl e
                 | Inr res \<Rightarrow>
                     (case sort_values srt [MetCol (sb_field sb)] (sb_direction sb = Asc) res of
                        Inl e \<Rightarrow> Inl e
                      | Inr sorted_res \<Rightarrow> Inr (head n sorted_res)))
         | _ \<Rightarrow> Inl (ValueError ''top_n requires top_n and sort_by'')))"

definition run_trend :: "sorter \<Rightarrow> row list \<Rightarrow> query_plan \<Rightarrow> error + result_df" where
  "run_trend srt df plan =
     (let group = (if groupby plan = [] then [DYear, DMonth] else groupby plan);
          ms = (if metrics plan = [] then [Revenue, Cost] else metrics plan);
          agg_map = dict_keys ms
      in case groupby_agg group agg_map df of
           Inl e \<Rightarrow> Inl e
         | Inr res \<Rightarrow>
             (if DYear \<in> set group \<and> DMonth \<in> set group
              then sort_values srt [DimCol DYear, DimCol DMonth] True res
              else sort_values srt (map DimCol group) True res))"

subsection \<open>Execution\<close>

record execution_result =
  result_df :: result_df
  subset_df :: "row list"

definition dispatch :: "sorter \<Rightarrow> row list \<Rightarrow> query_plan \<Rightarrow> error + result_df" where
  "dispatch srt df plan =
     (case intent plan of
        Aggregate \<Rightarrow> run_aggregate df plan
      | TopN \<Rightarrow> run_top_n srt df plan
      | Trend \<Rightarrow> run_trend srt df plan
      | Unknown \<Rightarrow> Inl (ValueError ''Unsupported intent: unknown''))"

definition execute_with_subset :: "sorter \<Rightarrow> row list \<Rightarrow> query_plan \<Rightarrow> error + execution_result" where
  "execute_with_subset srt df plan =
     (case apply_time_range df plan of
        Inl e \<Rightarrow> Inl e
      | Inr (FrameAndSeries selected flags) \<Rightarrow> Inl NotATable
      | Inr (Table sliced) \<Rightarrow>
          (let sub = apply_filters sliced plan
           in case dispatch srt sub plan of
                Inl e \<Rightarrow> Inl e
              | Inr res \<Rightarrow> Inr \<lparr>result_df = res, subset_df = sub\<rparr>))"

definition execute :: "sorter \<Rightarrow> row list \<Rightarrow> query_plan \<Rightarrow> error + result_df" where
  "execute srt df plan = map_sum id result_df (execute_with_subset srt df plan)"


section \<open>Construction of a plan (src/engine/query_plan.py, src/llm/router.py)\<close>

text \<open>
  \<open>QueryPlan.model_validate(data)\<close> receives what \<open>json.loads\<close> made of the
  planner's text: a JSON value. An object is the list of its keys with their values, each
  key once.
\<close>

datatype json =
  JNull | JBool bool | JInt int | JFloat rat | JStr string
  | JArr "json list" | JObj "(string \<times> json) list"

text \<open>
  The part of pydantic that is a parameter: what the validator of an \<open>int\<close> field, in
  the default lax mode, makes of a boolean, of a float and of a text. An integer is
  accepted as it is, and null, an array and an object are no integer.
\<close>

record pydantic =
  lax_int :: "json \<Rightarrow> int option"

datatype validation_error = ValidationError

definition FilterField :: "dimension list" where
  "FilterField =
     [DYear, DQuarter, DMonth, DWeek,
      DCountry, DMediaCategory, DMediaName,
      DCommunication, DCampaignCategory,
      DProduct, DCampaignName]"

definition GroupByField :: "dimension list" where
  "GroupByField =
     [DYear, DQuarter, DMonth, DWeek,
      DCountry, DMediaCategory, DMediaName,
      DProduct, DCampaignName]"

definition parse_intent :: "string \<Rightarrow> intent option" where
  "parse_intent s =
     (if s = ''aggregate'' then Some Aggregate
      else if s = ''top_n'' then Some TopN
      else if s = ''trend'' then Some Trend
      else if s = ''unknown'' then Some Unknown
      else None)"

definition parse_metric :: "string \<Rightarrow> metric option" where
  "parse_metric s = find (\<lambda>m. metric_name m = s) [Revenue, Cost, Profit]"

definition parse_filter_field :: "string \<Rightarrow> dimension option" where
  "parse_filter_field s = find (\<lambda>d. dimension_name d = s) FilterField"

definition parse_groupby_field :: "string \<Rightarrow> dimension option" where
  "parse_groupby_field s = find (\<lambda>d. dimension_name d = s) GroupByField"

definition parse_range_type :: "string \<Rightarrow> range_type option" where
  "parse_range_type s =
     (if s = ''all'' then Some RAll
      else if s = ''year'' then Some RYear
      else if s = ''quarter'' then Some RQuarter
      else if s = ''last_quarter'' then Some RLastQuarter
      else if s = ''last_n_years'' then Some RLastNYears
      else None)"

definition parse_op :: "string \<Rightarrow> filter_op option" where
  "parse_op s = (if s = ''='' then Some OpEq else None)"

definition parse_direction :: "string \<Rightarrow> direction option" where
  "parse_direction s =
     (if s = ''asc'' then Some Asc else if s = ''desc'' then Some Desc else None)"

text \<open>A field of a \<open>Literal\<close> type of texts: a text that the type lists, nothing else.\<close>

definition literal :: "(string \<Rightarrow> 'a option) \<Rightarrow> json \<Rightarrow> 'a option" where
  "literal parse j = (case j of JStr s \<Rightarrow> parse s | _ \<Rightarrow> None)"

definition int_field :: "pydantic \<Rightarrow> json \<Rightarrow> int option" where
  "int_field P j =
     (case j of
        JInt i \<Rightarrow> Some i
      | JNull \<Rightarrow> None
      | JArr js \<Rightarrow> None
      | JObj obj \<Rightarrow> None
      | _ \<Rightarrow> lax_int P j)"

text \<open>\<open>Optional[T]\<close>: null, or a value of \<open>T\<close>.\<close>

definition optional :: "(json \<Rightarrow> 'a option) \<Rightarrow> json \<Rightarrow> 'a option option" where
  "optional validate j =
     (case j of JNull \<Rightarrow> Some None | _ \<Rightarrow> map_option Some (validate j))"

text \<open>\<open>list[T]\<close>: an array every element of which is a value of \<open>T\<close>.\<close>

definition list_of :: "(json \<Rightarrow> 'a option) \<Rightarrow> json \<Rightarrow> 'a list option" where
  "list_of validate j = (case j of JArr js \<Rightarrow> those (map validate js) | _ \<Rightarrow> None)"

text \<open>
  A field with a default takes the default when the object has no such key, a required
  field fails then. A key that no field is named after is ignored.
\<close>

definition field_default :: "(string \<times> json) list \<Rightarrow> string \<Rightarrow> 'a \<Rightarrow> (json \<Rightarrow> 'a option) \<Rightarrow> 'a option" where
  "field_default obj k dflt validate =
     (case map_of obj k of None \<Rightarrow> Some dflt | Some j \<Rightarrow> validate j)"

definition field_required :: "(string \<times> json) list \<Rightarrow> string \<Rightarrow> (json \<Rightarrow> 'a option) \<Rightarrow> 'a option" where
  "field_required obj k validate =
     (case map_of obj k of None \<Rightarrow> None | Some j \<Rightarrow> validate j)"

definition TimeRange :: "pydantic \<Rightarrow> json \<Rightarrow> time_range_rec option" where
  "TimeRange P j =
     (case j of
        JObj obj \<Rightarrow>
          (case (field_default obj ''type'' RAll (literal parse_range_type),
                 field_default obj ''year'' None (optional (int_field P)),
                 field_default obj ''quarter'' None (optional (int_field P)),
                 field_default obj ''n_years'' None (optional (int_field P))) of
             (Some t, Some y, Some q, Some n) \<Rightarrow>
               Some \<lparr>tr_type = t, tr_year = y, tr_quarter = q, n_years = n\<rparr>
           | _ \<Rightarrow> None)
      | _ \<Rightarrow> None)"

definition Filter :: "json \<Rightarrow> json filter_of option" where
  "Filter j =
     (case j of
        JObj obj \<Rightarrow>
          (case (field_required obj ''field'' (literal parse_filter_field),
                 field_default obj ''op'' OpEq (literal parse_op),
                 field_required obj ''value'' Some) of
             (Some d, Some p, Some v) \<Rightarrow> Some \<lparr>f_field = d, f_op = p, f_value = v\<rparr>
           | _ \<Rightarrow> None)
      | _ \<Rightarrow> None)"

definition SortBy :: "json \<Rightarrow> sort_by_rec option" where
  "SortBy j =
     (case j of
        JObj obj \<Rightarrow>
          (case (field_required obj ''field'' (literal parse_metric),
                 field_default obj ''direction'' Desc (literal parse_direction)) of
             (Some m, Some d) \<Rightarrow> Some \<lparr>sb_field = m, sb_direction = d\<rparr>
           | _ \<Rightarrow> None)
      | _ \<Rightarrow> None)"

text \<open>
  \<open>QueryPlan.model_validate(data)\<close>: the validated plan, or the validation error that
  the router catches.
\<close>

definition QueryPlan :: "pydantic \<Rightarrow> json \<Rightarrow> validation_error + json plan_of" where
  "QueryPlan P data =
     (case data of
        JObj obj \<Rightarrow>
          (case (field_default obj ''intent'' Unknown (literal parse_intent),
                 field_default obj ''metrics'' [] (list_of (literal parse_metric)),
                 field_default obj ''groupby'' [] (list_of (literal parse_groupby_field)),
                 field_default obj ''time_range''
                   \<lparr>tr_type = RAll, tr_year = None, tr_quarter = None, n_years = None\<rparr>
                   (TimeRange P),
                 field_default obj ''filters'' [] (list_of Filter),
                 field_default obj ''top_n'' None (optional (int_field P)),
                 field_default obj ''sort_by'' None (optional SortBy)) of
             (Some i, Some ms, Some g, Some tr, Some fs, Some n, Some sb) \<Rightarrow>
               Inr \<lparr>intent = i, metrics = ms, groupby = g, time_range = tr, filters = fs,
                    top_n = n, sort_by = sb\<rparr>
           | _ \<Rightarrow> Inl ValidationError)
      | _ \<Rightarrow> Inl ValidationError)"

section \<open>Schema registry (src/data/schema.py)\<close>

definition RAW_COLUMNS :: "string list" where
  "RAW_COLUMNS =
     [''Year'', ''Quarter'', ''Month'', ''Week'', ''Date'', ''Country'',
      ''Media Category'', ''Media Name'', ''Communication'',
      ''Campaign Category'', ''Product'', ''Campaign Name'', ''Revenue'', ''Cost'']"

definition RENAME_MAP :: "(string \<times> string) list" where
  "RENAME_MAP =
     [(''Year'', ''year''),
      (''Quarter'', ''quarter''),
      (''Month'', ''month''),
      (''Week'', ''week''),
      (''Date'', ''date''),
      (''Country'', ''country''),
      (''Media Category'', ''media_category''),
      (''Media Name'', ''media_name''),
      (''Communication'', ''communication''),
      (''Campaign Category'', ''campaign_category''),
      (''Product'', ''product''),
      (''Campaign Name'', ''campaign_name''),
      (''Revenue'', ''revenue''),
      (''Cost'', ''cost'')]"

definition NUMERIC_COLUMNS :: "string list" where
  "NUMERIC_COLUMNS = [''year'', ''quarter'', ''month'', ''week'', ''revenue'', ''cost'']"

definition DATE_COLUMN :: string where
  "DATE_COLUMN = ''date''"

definition DIMENSIONS :: "string list" where
  "DIMENSIONS =
     [''year'', ''quarter'', ''month'', ''week'',
      ''country'', ''media_category'', ''media_name'',
      ''communication'', ''campaign_category'',
      ''product'', ''campaign_name'']"

definition ROW_ID_HASH_COLUMNS :: "string list" where
  "ROW_ID_HASH_COLUMNS =
     [''year'', ''quarter'', ''month'', ''week'', ''date'',
      ''country'', ''media_category'', ''media_name'',
      ''communication'', ''campaign_category'', ''product'', ''campaign_name'',
      ''revenue'', ''cost'']"

record dataset_schema =
  raw_columns :: "string list"
  rename_map :: "(string \<times> string) list"
  numeric_columns :: "string list"
  date_column :: string
  dimensions :: "string list"
  row_id_hash_columns :: "string list"

definition marketing_default :: dataset_schema where
  "marketing_default =
     \<lparr>raw_columns = RAW_COLUMNS,
      rename_map = RENAME_MAP,
      numeric_columns = NUMERIC_COLUMNS,
      date_column = DATE_COLUMN,
      dimensions = DIMENSIONS,
      row_id_hash_columns = ROW_ID_HASH_COLUMNS\<rparr>"


section \<open>Dataset loader (src/data/loader.py)\<close>

text \<open>
  A frame of the loader is its list of column names and its rows, each row the list of
  its (column, cell) pairs; the column names of the source are taken to be distinct, also
  after the renaming. A cell is an integer of an int64 column, a float of a float64
  column, a text, a timestamp or the missing value (NaN / NaT). A float is the number it
  stands for, the negative zero or an infinity. A text is the list of its characters,
  each a code point below 256.

  A column of numbers is an int64 column exactly when every cell of it is an integer:
  one missing value or one float makes it a float64 column, whose integers are floats.
  The frame that \<open>pd.read_csv\<close> returns has an int64 column where every cell of the
  file reads as an integer, a float64 column where every cell reads as a number or is
  empty, and a column of texts, the empty cells missing, otherwise.
\<close>

record timestamp =
  ts_year :: int
  ts_month :: nat
  ts_day :: nat
  ts_time :: nat

datatype float64 = FNum rat | FNegZero | FPosInf | FNegInf

datatype cell = CInt "64 word" | CFloat float64 | CStr string | CTime timestamp | CNull

type_synonym lrow = "(string \<times> cell) list"

record data_frame =
  df_columns :: "string list"
  df_rows :: "lrow list"

datatype number = Int64 "64 word" | Float64 float64

text \<open>
  What the loader calls in pandas, numpy, Python and hashlib, as parameters of the model:
  \<open>pd.to_datetime(column, errors="coerce")\<close> as the timestamp of the cell at an index
  of the column (\<open>None\<close> is NaT), which may depend on the whole column; the number a
  text parses to under \<open>pd.to_numeric\<close> (\<open>None\<close> is NaN); the float of an integer;
  the difference of two floats (\<open>None\<close> is NaN); \<open>str\<close> of a float and of a
  timestamp; and the hexadecimal SHA-256 digest of a text.
\<close>

record pandas =
  to_datetime :: "cell list \<Rightarrow> nat \<Rightarrow> timestamp option"
  parse_number :: "string \<Rightarrow> number option"
  float_of_int :: "64 word \<Rightarrow> float64"
  float_sub :: "float64 \<Rightarrow> float64 \<Rightarrow> float64 option"
  str_float :: "float64 \<Rightarrow> string"
  str_timestamp :: "timestamp \<Rightarrow> string"
  sha256_hexdigest :: "string \<Rightarrow> string"

definition get :: "lrow \<Rightarrow> string \<Rightarrow> cell" where
  "get r c = (case map_of r c of Some v \<Rightarrow> v | None \<Rightarrow> CNull)"

fun set_cell :: "string \<Rightarrow> cell \<Rightarrow> lrow \<Rightarrow> lrow" where
  "set_cell c v [] = [(c, v)]"
| "set_cell c v ((k, x) # r) = (if k = c then (c, v) # r else (k, x) # set_cell c v r)"

text \<open>\<open>df[c]\<close>, the column as a list of cells.\<close>

definition series :: "data_frame \<Rightarrow> string \<Rightarrow> cell list" where
  "series df c = map (\<lambda>r. get r c) (df_rows df)"

text \<open>\<open>df[c] = values\<close>: the column is replaced, a new column is appended.\<close>

definition assign :: "string \<Rightarrow> cell list \<Rightarrow> data_frame \<Rightarrow> data_frame" where
  "assign c vs df =
     \<lparr>df_columns = (if c \<in> set (df_columns df) then df_columns df else df_columns df @ [c]),
      df_rows = map2 (set_cell c) vs (df_rows df)\<rparr>"

text \<open>
  \<open>_validate_columns\<close>: \<open>None\<close> when nothing is raised. The message of the source
  goes on with the list of the missing columns.
\<close>

definition validate_columns :: "dataset_schema \<Rightarrow> data_frame \<Rightarrow> error option" where
  "validate_columns schema df =
     (let missing = filter (\<lambda>c. c \<notin> set (df_columns df)) (raw_columns schema)
      in if missing \<noteq> [] then Some (ValueError ''CSV missing expected columns'') else None)"

definition rename :: "(string \<times> string) list \<Rightarrow> string \<Rightarrow> string" where
  "rename m c = (case map_of m c of Some c' \<Rightarrow> c' | None \<Rightarrow> c)"

definition normalize :: "dataset_schema \<Rightarrow> data_frame \<Rightarrow> data_frame" where
  "normalize schema df =
     \<lparr>df_columns = map (rename (rename_map schema)) (df_columns df),
      df_rows = map (map (\<lambda>(c, v). (rename (rename_map schema) c, v))) (df_rows df)\<rparr>"

subsection \<open>Columns of numbers\<close>

definition is_int :: "cell \<Rightarrow> bool" where
  "is_int v = (case v of CInt i \<Rightarrow> True | _ \<Rightarrow> False)"

definition to_float :: "pandas \<Rightarrow> cell \<Rightarrow> cell" where
  "to_float L v = (case v of CInt i \<Rightarrow> CFloat (float_of_int L i) | _ \<Rightarrow> v)"

text \<open>The cells of a column of numbers: int64 when all are integers, else float64.\<close>

definition numeric_column :: "pandas \<Rightarrow> cell list \<Rightarrow> cell list" where
  "numeric_column L vs = (if list_all is_int vs then vs else map (to_float L) vs)"

text \<open>
  \<open>pd.to_numeric(column, errors="coerce")\<close>: a number stays, a text is parsed, anything
  else is NaN. Under the default schema no timestamp is in a column that is read so.
\<close>

definition to_numeric_cell :: "pandas \<Rightarrow> cell \<Rightarrow> cell" where
  "to_numeric_cell L v =
     (case v of
        CInt i \<Rightarrow> CInt i
      | CFloat x \<Rightarrow> CFloat x
      | CStr t \<Rightarrow>
          (case parse_number L t of
             Some (Int64 i) \<Rightarrow> CInt i
           | Some (Float64 x) \<Rightarrow> CFloat x
           | None \<Rightarrow> CNull)
      | _ \<Rightarrow> CNull)"

definition to_numeric :: "pandas \<Rightarrow> cell list \<Rightarrow> cell list" where
  "to_numeric L vs = numeric_column L (map (to_numeric_cell L) vs)"

text \<open>
  \<open>column.fillna(other)\<close>: a missing cell takes the cell of the other column at its
  place. A column with a missing cell is a float64 column, so what fills it is a float;
  an int64 column has nothing to fill and stays as it is.
\<close>

definition fillna :: "pandas \<Rightarrow> cell list \<Rightarrow> cell list \<Rightarrow> cell list" where
  "fillna L xs ys = map2 (\<lambda>x y. if x = CNull then to_float L y else x) xs ys"

definition float_between :: "int \<Rightarrow> int \<Rightarrow> float64 \<Rightarrow> bool" where
  "float_between lo hi x =
     (case x of
        FNum q \<Rightarrow> of_int lo \<le> q \<and> q \<le> of_int hi
      | FNegZero \<Rightarrow> lo \<le> 0 \<and> 0 \<le> hi
      | _ \<Rightarrow> False)"

text \<open>\<open>column.between(lo, hi)\<close> at one cell: both ends included, false on NaN.\<close>

definition between :: "int \<Rightarrow> int \<Rightarrow> cell \<Rightarrow> bool" where
  "between lo hi v =
     (case v of
        CInt i \<Rightarrow> lo \<le> sint i \<and> sint i \<le> hi
      | CFloat x \<Rightarrow> float_between lo hi x
      | _ \<Rightarrow> False)"

definition isna :: "cell \<Rightarrow> bool" where
  "isna v \<longleftrightarrow> v = CNull"

subsection \<open>Texts\<close>

text \<open>\<open>str\<close> of an integer: its decimal digits, after the sign when negative.\<close>

definition digit_char :: "nat \<Rightarrow> char" where
  "digit_char d = ''0123456789'' ! d"

fun str_nat :: "nat \<Rightarrow> string" where
  "str_nat n = (if n < 10 then [digit_char n] else str_nat (n div 10) @ [digit_char (n mod 10)])"

definition str_int :: "int \<Rightarrow> string" where
  "str_int k = (if k < 0 then CHR ''-'' # str_nat (nat (- k)) else str_nat (nat k))"

text \<open>\<open>str(v)\<close> and the \<open>{v}\<close> of an f-string, for the cell of a column.\<close>

definition py_str :: "pandas \<Rightarrow> cell \<Rightarrow> string" where
  "py_str L v =
     (case v of
        CInt i \<Rightarrow> str_int (sint i)
      | CFloat x \<Rightarrow> str_float L x
      | CStr t \<Rightarrow> t
      | CTime t \<Rightarrow> str_timestamp L t
      | CNull \<Rightarrow> ''nan'')"

definition astype_str :: "pandas \<Rightarrow> cell list \<Rightarrow> string list" where
  "astype_str L vs = map (py_str L) vs"

text \<open>
  The classes \<open>\s\<close> and \<open>\d\<close> of Python's regular expressions on texts, among the
  code points below 256: the six characters from tab to carriage return, the four
  separators from 0x1C to 0x1F, the space, the next-line character 0x85 and the no-break
  space 0xA0; and the ten digits.
\<close>

definition is_space :: "char \<Rightarrow> bool" where
  "is_space c \<longleftrightarrow>
     c \<in> set [CHR 0x09, CHR 0x0A, CHR 0x0B, CHR 0x0C, CHR 0x0D,
              CHR 0x1C, CHR 0x1D, CHR 0x1E, CHR 0x1F, CHR '' '', CHR 0x85, CHR 0xA0]"

definition is_digit :: "char \<Rightarrow> bool" where
  "is_digit c \<longleftrightarrow> c \<in> set ''0123456789''"

definition digit_value :: "char \<Rightarrow> nat" where
  "digit_value c = length (takeWhile (\<lambda>d. d \<noteq> c) ''0123456789'')"

definition digits_value :: "string \<Rightarrow> nat" where
  "digits_value ds = foldl (\<lambda>n d. 10 * n + digit_value d) 0 ds"

text \<open>
  The group of the leftmost match of \<open>Q\s*([1-4])\<close> in a text, if there is a match.
\<close>

fun extract_quarter :: "string \<Rightarrow> string option" where
  "extract_quarter [] = None"
| "extract_quarter (c # cs) =
     (if c = CHR ''Q'' then
        (case dropWhile is_space cs of
           d # _ \<Rightarrow> if d \<in> set ''1234'' then Some [d] else extract_quarter cs
         | [] \<Rightarrow> extract_quarter cs)
      else extract_quarter cs)"

text \<open>
  The group of the leftmost match of \<open>M\s*(\d{1,2})\<close>: one digit, or two when a second
  one follows.
\<close>

fun extract_month :: "string \<Rightarrow> string option" where
  "extract_month [] = None"
| "extract_month (c # cs) =
     (if c = CHR ''M'' then
        (case takeWhile is_digit (take 2 (dropWhile is_space cs)) of
           [] \<Rightarrow> extract_month cs
         | ds \<Rightarrow> Some ds)
      else extract_month cs)"

text \<open>\<open>.str.extract(pattern, expand=False)\<close>: the group, or NaN where nothing matches.\<close>

definition str_extract :: "(string \<Rightarrow> string option) \<Rightarrow> string list \<Rightarrow> cell list" where
  "str_extract pattern ts = map (\<lambda>t. case pattern t of None \<Rightarrow> CNull | Some g \<Rightarrow> CStr g) ts"

text \<open>
  \<open>pd.to_numeric\<close> of the extracted groups. A group is one or two digits, which are
  read as the number they write.
\<close>

definition group_numbers :: "pandas \<Rightarrow> cell list \<Rightarrow> cell list" where
  "group_numbers L gs =
     numeric_column L
       (map (\<lambda>g. case g of CStr ds \<Rightarrow> CInt (of_nat (digits_value ds)) | _ \<Rightarrow> CNull) gs)"

subsection \<open>Dates\<close>

definition time_cell :: "timestamp option \<Rightarrow> cell" where
  "time_cell x = (case x of None \<Rightarrow> CNull | Some t \<Rightarrow> CTime t)"

text \<open>\<open>dt.quarter\<close> and \<open>dt.month\<close> of a column of timestamps.\<close>

definition dt_quarter :: "cell list \<Rightarrow> cell list" where
  "dt_quarter ds =
     map (\<lambda>v. case v of CTime t \<Rightarrow> CInt (of_nat ((ts_month t - 1) div 3 + 1)) | _ \<Rightarrow> CNull) ds"

definition dt_month :: "cell list \<Rightarrow> cell list" where
  "dt_month ds = map (\<lambda>v. case v of CTime t \<Rightarrow> CInt (of_nat (ts_month t)) | _ \<Rightarrow> CNull) ds"

subsection \<open>The steps of the load\<close>

text \<open>
  The blocks of \<open>_coerce_types\<close>, in the order of the source: the date is parsed, the
  quarter and the month are read as numbers and, where that gives NaN, as the number of
  the group of their pattern, what is still missing is taken from the date, and the
  numeric columns are read as numbers.
\<close>

definition parse_date :: "pandas \<Rightarrow> string \<Rightarrow> data_frame \<Rightarrow> data_frame" where
  "parse_date L date_col df =
     assign date_col
       (map (\<lambda>i. time_cell (to_datetime L (series df date_col) i)) [0..<length (df_rows df)])
       df"

definition numeric_or_pattern ::
  "pandas \<Rightarrow> (string \<Rightarrow> string option) \<Rightarrow> cell list \<Rightarrow> cell list" where
  "numeric_or_pattern L pattern vs =
     (let groups = str_extract pattern (astype_str L vs)
      in fillna L (to_numeric L vs) (group_numbers L groups))"

definition quarter_parsing :: "pandas \<Rightarrow> data_frame \<Rightarrow> data_frame" where
  "quarter_parsing L df =
     assign ''quarter'' (numeric_or_pattern L extract_quarter (series df ''quarter'')) df"

definition month_parsing :: "pandas \<Rightarrow> data_frame \<Rightarrow> data_frame" where
  "month_parsing L df =
     assign ''month'' (numeric_or_pattern L extract_month (series df ''month'')) df"

definition fallback_from_date :: "pandas \<Rightarrow> string \<Rightarrow> data_frame \<Rightarrow> data_frame" where
  "fallback_from_date L date_col df =
     (let df1 = assign ''quarter''
                  (fillna L (series df ''quarter'') (dt_quarter (series df date_col))) df
      in assign ''month'' (fillna L (series df1 ''month'') (dt_month (series df1 date_col))) df1)"

definition coerce_numeric_columns :: "pandas \<Rightarrow> string list \<Rightarrow> data_frame \<Rightarrow> data_frame" where
  "coerce_numeric_columns L cols df =
     fold (\<lambda>col d. assign col (to_numeric L (series d col)) d) cols df"

text \<open>
  \<open>_coerce_types\<close>. The messages of the source go on with a printout of the offending
  rows; the model keeps their fixed first line.
\<close>

definition coerce_types :: "pandas \<Rightarrow> dataset_schema \<Rightarrow> data_frame \<Rightarrow> error + data_frame" where
  "coerce_types L schema df0 =
     (let date_col = date_column schema;
          df1 = parse_date L date_col df0
      in if list_ex isna (series df1 date_col)
         then Inl (ValueError ''Some rows have invalid Date values after parsing.'')
         else
           (let df2 = fallback_from_date L date_col (month_parsing L (quarter_parsing L df1));
                bad_q = map (\<lambda>v. isna v \<or> \<not> between 1 4 v) (series df2 ''quarter'');
                bad_m = map (\<lambda>v. isna v \<or> \<not> between 1 12 v) (series df2 ''month'')
            in if list_ex id bad_q \<or> list_ex id bad_m
               then Inl (ValueError ''Some rows have invalid Quarter/Month values after parsing.'')
               else
                 (let df3 = coerce_numeric_columns L (numeric_columns schema) df2
                  in if list_ex isna (series df3 ''revenue'') \<or> list_ex isna (series df3 ''cost'')
                     then Inl (ValueError
                            ''Some rows have invalid Revenue/Cost values after parsing.'')
                     else Inr df3)))"

text \<open>
  \<open>df["revenue"] - df["cost"]\<close>: the difference of two int64 columns wraps around;
  when one of the columns is a float64 column both are subtracted as floats.
\<close>

definition sub_float :: "pandas \<Rightarrow> cell \<Rightarrow> cell \<Rightarrow> cell" where
  "sub_float L a b =
     (case (a, b) of
        (CFloat x, CFloat y) \<Rightarrow> (case float_sub L x y of Some z \<Rightarrow> CFloat z | None \<Rightarrow> CNull)
      | _ \<Rightarrow> CNull)"

definition sub_int :: "cell \<Rightarrow> cell \<Rightarrow> cell" where
  "sub_int a b = (case (a, b) of (CInt x, CInt y) \<Rightarrow> CInt (x - y) | _ \<Rightarrow> CNull)"

definition subtract :: "pandas \<Rightarrow> cell list \<Rightarrow> cell list \<Rightarrow> cell list" where
  "subtract L xs ys =
     (if list_all is_int xs \<and> list_all is_int ys then map2 sub_int xs ys
      else map2 (\<lambda>x y. sub_float L (to_float L x) (to_float L y)) xs ys)"

definition add_derived_metrics :: "pandas \<Rightarrow> data_frame \<Rightarrow> data_frame" where
  "add_derived_metrics L df =
     assign ''profit'' (subtract L (series df ''revenue'') (series df ''cost'')) df"

text \<open>\<open>str(v.date())\<close>: the calendar date as YYYY-MM-DD, the time of day dropped.\<close>

fun zero_pad :: "nat \<Rightarrow> nat \<Rightarrow> string" where
  "zero_pad 0 n = []"
| "zero_pad (Suc w) n = zero_pad w (n div 10) @ [digit_char (n mod 10)]"

definition isoformat :: "timestamp \<Rightarrow> string" where
  "isoformat t =
     zero_pad 4 (nat (ts_year t)) @ ''-'' @ zero_pad 2 (ts_month t) @ ''-'' @ zero_pad 2 (ts_day t)"

fun join :: "string \<Rightarrow> string list \<Rightarrow> string" where
  "join sep [] = []"
| "join sep [p] = p"
| "join sep (p # q # ps) = p @ sep @ join sep (q # ps)"

text \<open>
  \<open>build_row_key\<close>, on a row of \<open>df.apply(..., axis=1)\<close>: the cell of an int64 column
  prints as an integer (\<open>1\<close>), the cell of a float64 column as a float (\<open>1.0\<close>).
\<close>

definition key_part :: "pandas \<Rightarrow> lrow \<Rightarrow> string \<Rightarrow> string" where
  "key_part L r c =
     c @ ''='' @
     (if c = ''date'' then (case get r c of CTime t \<Rightarrow> isoformat t | v \<Rightarrow> py_str L v)
      else py_str L (get r c))"

definition build_row_key :: "pandas \<Rightarrow> string list \<Rightarrow> lrow \<Rightarrow> string" where
  "build_row_key L cols r = join ''|'' (map (key_part L r) cols)"

definition hash_key :: "pandas \<Rightarrow> string \<Rightarrow> string" where
  "hash_key L k = take 16 (sha256_hexdigest L k)"

definition has_date_method :: "cell \<Rightarrow> bool" where
  "has_date_method v = (case v of CTime t \<Rightarrow> True | _ \<Rightarrow> False)"

text \<open>
  \<open>_add_row_id\<close>. On a frame without rows \<open>df.apply(..., axis=1)\<close> returns a frame,
  which the assignment to the one column \<open>row_id\<close> refuses with a \<open>ValueError\<close>.
  \<open>v.date()\<close> exists on a timestamp only; on any other cell of the column \<open>date\<close> the
  source raises, and the branch of \<open>key_part\<close> for it is never run.
\<close>

definition add_row_id :: "pandas \<Rightarrow> dataset_schema \<Rightarrow> data_frame \<Rightarrow> error + data_frame" where
  "add_row_id L schema df =
     (let cols = row_id_hash_columns schema
      in if df_rows df = []
         then Inl (ValueError
                ''Cannot set a DataFrame with multiple columns to the single column row_id'')
         else if ''date'' \<in> set cols \<and> list_ex (\<lambda>r. \<not> has_date_method (get r ''date'')) (df_rows df)
         then Inl (AttributeError ''date'')
         else Inr (assign ''row_id''
                     (map (\<lambda>r. CStr (hash_key L (build_row_key L cols r))) (df_rows df)) df))"

text \<open>\<open>min()\<close> and \<open>max()\<close> of the date column: NaT (\<open>None\<close>) when there is no date.\<close>

definition ts_le :: "timestamp \<Rightarrow> timestamp \<Rightarrow> bool" where
  "ts_le a b \<longleftrightarrow>
     ts_year a < ts_year b \<or> (ts_year a = ts_year b \<and>
       (ts_month a < ts_month b \<or> (ts_month a = ts_month b \<and>
         (ts_day a < ts_day b \<or> (ts_day a = ts_day b \<and> ts_time a \<le> ts_time b)))))"

fun dates_of :: "cell list \<Rightarrow> timestamp list" where
  "dates_of [] = []"
| "dates_of (CTime t # vs) = t # dates_of vs"
| "dates_of (v # vs) = dates_of vs"

fun extreme :: "(timestamp \<Rightarrow> timestamp \<Rightarrow> bool) \<Rightarrow> timestamp list \<Rightarrow> timestamp option" where
  "extreme le [] = None"
| "extreme le (t # ts) =
     (case extreme le ts of None \<Rightarrow> Some t | Some m \<Rightarrow> Some (if le t m then t else m))"

record load_result =
  loaded_df :: data_frame
  min_date :: "timestamp option"
  max_date :: "timestamp option"

text \<open>\<open>load\<close>, from the frame that \<open>pd.read_csv\<close> returned.\<close>

definition load :: "pandas \<Rightarrow> dataset_schema \<Rightarrow> data_frame \<Rightarrow> error + load_result" where
  "load L schema csv =
     (case validate_columns schema csv of
        Some e \<Rightarrow> Inl e
      | None \<Rightarrow>
          (case coerce_types L schema (normalize schema csv) of
             Inl e \<Rightarrow> Inl e
           | Inr coerced \<Rightarrow>
               (case add_row_id L schema (add_derived_metrics L coerced) of
                  Inl e \<Rightarrow> Inl e
                | Inr out \<Rightarrow>
                    (let dates = dates_of (series out (date_column schema))
                     in Inr \<lparr>loaded_df = out,
                             min_date = extreme ts_le dates,
                             max_date = extreme (\<lambda>a b. ts_le b a) dates\<rparr>))))"


section \<open>The specification's own words\<close>

text \<open>
  The target of \<open>last_quarter\<close> as the specification puts it: the maximum year
  present, the maximum quarter present within that year, and one quarter back from there.
\<close>

definition spec_last_quarter_target :: "row list \<Rightarrow> int \<times> int" where
  "spec_last_quarter_target df =
     (let maxYear = Max (year ` set df);
          maxQ = Max (quarter ` set (filter (\<lambda>r. year r = maxYear) df))
      in if maxQ = 1 then (maxYear - 1, 4) else (maxYear, maxQ - 1))"

text \<open>The rows that survive the time-range slice, by \<open>time_range.type\<close>.\<close>

definition spec_time_slice :: "row list \<Rightarrow> time_range_rec \<Rightarrow> row \<Rightarrow> bool" where
  "spec_time_slice df tr r =
     (case tr_type tr of
        RAll \<Rightarrow> True
      | RYear \<Rightarrow> tr_year tr = Some (year r)
      | RQuarter \<Rightarrow> tr_year tr = Some (year r) \<and> tr_quarter tr = Some (quarter r)
      | RLastQuarter \<Rightarrow> (year r, quarter r) = spec_last_quarter_target df
      | RLastNYears \<Rightarrow>
          (let maxYear = Max (year ` set df);
               n = (case n_years tr of None \<Rightarrow> 3 | Some k \<Rightarrow> k)
           in maxYear - n + 1 \<le> year r \<and> year r \<le> maxYear))"

text \<open>
  The sum of a metric over rows as the integer it is, and what is left of an integer in
  64 bits, two's complement.
\<close>

definition spec_exact_sum :: "metric \<Rightarrow> row list \<Rightarrow> int" where
  "spec_exact_sum m rs = (\<Sum>r\<leftarrow>rs. sint (metric_value m r))"

definition spec_wrap64 :: "int \<Rightarrow> int" where
  "spec_wrap64 k = (k + 2 ^ 63) mod 2 ^ 64 - 2 ^ 63"

definition in_int64 :: "int \<Rightarrow> bool" where
  "in_int64 k \<longleftrightarrow> - (2 ^ 63) \<le> k \<and> k < 2 ^ 63"

text \<open>The grouping key a row of a result carries in its dimension columns.\<close>

definition result_key :: "dimension list \<Rightarrow> result_row \<Rightarrow> val list" where
  "result_key g r = map (\<lambda>d. cell (DimCol d) r) g"

text \<open>
  The quarter and the month of the rows as the specification coerces them: the number of
  the cell, else the number after the pattern, else the quarter or month of the parsed
  date. A row is bad when its date does not parse, when its coerced quarter or month is
  missing or outside the range, or when its revenue or cost is no number.
\<close>

definition spec_parsed_dates :: "pandas \<Rightarrow> data_frame \<Rightarrow> cell list" where
  "spec_parsed_dates L df =
     map (\<lambda>i. time_cell (to_datetime L (series df ''date'') i)) [0..<length (df_rows df)]"

definition spec_coerced_quarter :: "pandas \<Rightarrow> data_frame \<Rightarrow> cell list" where
  "spec_coerced_quarter L df =
     fillna L (numeric_or_pattern L extract_quarter (series df ''quarter''))
       (dt_quarter (spec_parsed_dates L df))"

definition spec_coerced_month :: "pandas \<Rightarrow> data_frame \<Rightarrow> cell list" where
  "spec_coerced_month L df =
     fillna L (numeric_or_pattern L extract_month (series df ''month''))
       (dt_month (spec_parsed_dates L df))"

definition outside :: "int \<Rightarrow> int \<Rightarrow> cell \<Rightarrow> bool" where
  "outside lo hi v \<longleftrightarrow> isna v \<or> \<not> between lo hi v"

definition spec_bad_row :: "pandas \<Rightarrow> data_frame \<Rightarrow> nat \<Rightarrow> bool" where
  "spec_bad_row L df i \<longleftrightarrow>
     to_datetime L (series df ''date'') i = None \<or>
     outside 1 4 (spec_coerced_quarter L df ! i) \<or>
     outside 1 12 (spec_coerced_month L df ! i) \<or>
     isna (to_numeric L (series df ''revenue'') ! i) \<or>
     isna (to_numeric L (series df ''cost'') ! i)"

text \<open>The identifiers of the rows of a load, in the order of the rows.\<close>

definition row_ids :: "load_result \<Rightarrow> cell list" where
  "row_ids res = series (loaded_df res) ''row_id''"

section \<open>Example data\<close>

definition example_row :: "int \<Rightarrow> int \<Rightarrow> int \<Rightarrow> string \<Rightarrow> string \<Rightarrow> 64 word \<Rightarrow> 64 word \<Rightarrow> row" where
  "example_row y q m ctry camp rv cst =
     \<lparr>year = y, quarter = q, month = m, week = 1, country = Some ctry,
      media_category = None, media_name = None, communication = None,
      campaign_category = None, product_col = None, campaign_name = Some camp,
      revenue = rv, cost = cst, profit = rv - cst, row_id = camp\<rparr>"

definition example_table :: "row list" where
  "example_table =
     [example_row 2022 4 12 ''IT'' ''A'' 50 10,
      example_row 2023 1 1 ''IT'' ''B'' 30 5,
      example_row 2023 1 2 ''FR'' ''C'' 80 20,
      example_row 2021 3 7 ''IT'' ''A'' 7 1]"

definition range_of :: "range_type \<Rightarrow> int option \<Rightarrow> int option \<Rightarrow> time_range_rec" where
  "range_of t y n = \<lparr>tr_type = t, tr_year = y, tr_quarter = None, n_years = n\<rparr>"

definition top_n_plan :: "int \<Rightarrow> query_plan" where
  "top_n_plan n =
     \<lparr>intent = TopN, metrics = [Revenue], groupby = [DCampaignName],
      time_range = range_of RAll None None, filters = [], top_n = Some n,
      sort_by = Some \<lparr>sb_field = Revenue, sb_direction = Desc\<rparr>\<rparr>"

definition aggregate_plan :: "time_range_rec \<Rightarrow> query_plan" where
  "aggregate_plan tr =
     \<lparr>intent = Aggregate, metrics = [Revenue], groupby = [], time_range = tr,
      filters = [\<lparr>f_field = DCountry, f_op = OpEq, f_value = Str ''IT''\<rparr>],
      top_n = None, sort_by = None\<rparr>"

definition grouped_plan :: query_plan where
  "grouped_plan =
     \<lparr>intent = Aggregate, metrics = [Revenue, Profit], groupby = [DCountry],
      time_range = range_of RAll None None, filters = [], top_n = None, sort_by = None\<rparr>"

definition trend_plan :: query_plan where
  "trend_plan =
     \<lparr>intent = Trend, metrics = [], groupby = [], time_range = range_of RAll None None,
      filters = [], top_n = None, sort_by = None\<rparr>"

definition overflow_table :: "row list" where
  "overflow_table =
     [example_row 2023 1 1 ''IT'' ''A'' 9223372036854775807 0,
      example_row 2023 1 2 ''IT'' ''B'' 1 0]"

definition filtered_plan :: query_plan where
  "filtered_plan =
     \<lparr>intent = Aggregate, metrics = [Revenue], groupby = [], time_range = range_of RAll None None,
      filters = [\<lparr>f_field = DYear, f_op = OpEq, f_value = Num 2023\<rparr>,
                 \<lparr>f_field = DCountry, f_op = OpEq, f_value = Str ''IT''\<rparr>],
      top_n = None, sort_by = None\<rparr>"

definition example_top_two :: result_df where
  "example_top_two =
     \<lparr>res_columns = [DimCol DCampaignName, MetCol Revenue],
      res_rows = [[(DimCol DCampaignName, Str ''C''), (MetCol Revenue, Num 80)],
                  [(DimCol DCampaignName, Str ''A''), (MetCol Revenue, Num 57)]]\<rparr>"

text \<open>
  The JSON of an aggregate plan grouped by one name, with a filter on
  \<open>communication\<close>.
\<close>

definition plan_data_grouped_by :: "string \<Rightarrow> json" where
  "plan_data_grouped_by g =
     JObj [(''intent'', JStr ''aggregate''),
           (''metrics'', JArr [JStr ''revenue'']),
           (''groupby'', JArr [JStr g]),
           (''time_range'', JObj [(''type'', JStr ''all''), (''year'', JNull), (''quarter'', JNull)]),
           (''filters'', JArr [JObj [(''field'', JStr ''communication''), (''op'', JStr ''=''),
                                     (''value'', JStr ''TV'')]]),
           (''top_n'', JNull),
           (''sort_by'', JNull)]"

text \<open>
  A library for the examples: dates written YYYY-MM-DD, each cell read on its own; numbers
  written in digits; floats that are whole numbers, printed with one decimal; the digest
  of a text left open.
\<close>

definition example_to_datetime :: "cell list \<Rightarrow> nat \<Rightarrow> timestamp option" where
  "example_to_datetime vs i =
     (case vs ! i of
        CStr t \<Rightarrow>
          (let y = take 4 t; m = take 2 (drop 5 t); d = take 2 (drop 8 t)
           in if length t = 10 \<and> list_all is_digit (y @ m @ d) \<and> t ! 4 = CHR ''-'' \<and> t ! 7 = CHR ''-'' \<and>
                 1 \<le> digits_value m \<and> digits_value m \<le> 12 \<and>
                 1 \<le> digits_value d \<and> digits_value d \<le> 31
              then Some \<lparr>ts_year = int (digits_value y), ts_month = digits_value m,
                         ts_day = digits_value d, ts_time = 0\<rparr>
              else None)
      | _ \<Rightarrow> None)"

definition example_parse_number :: "string \<Rightarrow> number option" where
  "example_parse_number t =
     (if t \<noteq> [] \<and> list_all is_digit t then Some (Int64 (of_nat (digits_value t))) else None)"

definition example_float_sub :: "float64 \<Rightarrow> float64 \<Rightarrow> float64 option" where
  "example_float_sub x y =
     (case (x, y) of (FNum a, FNum b) \<Rightarrow> Some (FNum (a - b)) | _ \<Rightarrow> None)"

definition example_str_float :: "float64 \<Rightarrow> string" where
  "example_str_float x = (case x of FNum q \<Rightarrow> str_int \<lfloor>q\<rfloor> @ ''.0'' | _ \<Rightarrow> ''inf'')"

definition example_pandas :: "(string \<Rightarrow> string) \<Rightarrow> pandas" where
  "example_pandas h =
     \<lparr>to_datetime = example_to_datetime, parse_number = example_parse_number,
      float_of_int = (\<lambda>i. FNum (of_int (sint i))), float_sub = example_float_sub,
      str_float = example_str_float, str_timestamp = isoformat, sha256_hexdigest = h\<rparr>"

definition example_csv_row :: "cell \<Rightarrow> cell \<Rightarrow> string \<Rightarrow> cell \<Rightarrow> cell \<Rightarrow> lrow" where
  "example_csv_row q m d rv cst =
     [(''Year'', CInt 2023), (''Quarter'', q), (''Month'', m), (''Week'', CInt 1),
      (''Date'', CStr d), (''Country'', CStr ''IT''), (''Media Category'', CStr ''TV''),
      (''Media Name'', CStr ''Rai''), (''Communication'', CStr ''Brand''),
      (''Campaign Category'', CStr ''Promo''), (''Product'', CStr ''P1''),
      (''Campaign Name'', CStr ''Spring''), (''Revenue'', rv), (''Cost'', cst)]"

text \<open>
  The frame read from a file of one row,
  \<open>2023,1,1,1,2023-01-02,IT,TV,Rai,Brand,Promo,P1,Spring,100,40\<close>:
  every column of numbers is an int64 column.
\<close>

definition example_csv_one :: data_frame where
  "example_csv_one =
     \<lparr>df_columns = RAW_COLUMNS,
      df_rows = [example_csv_row (CInt 1) (CInt 1) ''2023-01-02'' (CInt 100) (CInt 40)]\<rparr>"

text \<open>
  The frame read from the file of that row and a second one,
  \<open>2023,Q2,5,1,2023-05-08,IT,TV,Rai,Brand,Promo,P1,Spring,70,10\<close>:
  the column \<open>Quarter\<close> is now a column of texts.
\<close>

definition example_csv_two :: data_frame where
  "example_csv_two =
     \<lparr>df_columns = RAW_COLUMNS,
      df_rows = [example_csv_row (CStr ''1'') (CInt 1) ''2023-01-02'' (CInt 100) (CInt 40),
                 example_csv_row (CStr ''Q2'') (CInt 5) ''2023-05-08'' (CInt 70) (CInt 10)]\<rparr>"

text \<open>
  Frames with a bad second row: quarter 5; month 13 written after the letter and a
  no-break space, in a column of texts; a date that is none; a revenue that is missing,
  in a float64 column.
\<close>

definition example_bad_quarter :: data_frame where
  "example_bad_quarter =
     \<lparr>df_columns = RAW_COLUMNS,
      df_rows = [example_csv_row (CInt 1) (CInt 1) ''2023-01-02'' (CInt 100) (CInt 40),
                 example_csv_row (CInt 5) (CInt 2) ''2023-02-14'' (CInt 100) (CInt 40)]\<rparr>"

definition example_bad_month :: data_frame where
  "example_bad_month =
     \<lparr>df_columns = RAW_COLUMNS,
      df_rows = [example_csv_row (CInt 1) (CStr ''1'') ''2023-01-02'' (CInt 100) (CInt 40),
                 example_csv_row (CInt 3) (CStr [CHR ''M'', CHR 0xA0, CHR ''1'', CHR ''3''])
                   ''2023-08-01'' (CInt 100) (CInt 40)]\<rparr>"

definition example_bad_date :: data_frame where
  "example_bad_date =
     \<lparr>df_columns = RAW_COLUMNS,
      df_rows = [example_csv_row (CInt 1) (CInt 1) ''2023-01-02'' (CInt 100) (CInt 40),
                 example_csv_row (CInt 1) (CInt 2) ''soon'' (CInt 100) (CInt 40)]\<rparr>"

definition example_bad_revenue :: data_frame where
  "example_bad_revenue =
     \<lparr>df_columns = RAW_COLUMNS,
      df_rows = [example_csv_row (CInt 1) (CInt 1) ''2023-01-02'' (CFloat (FNum 100)) (CInt 40),
                 example_csv_row (CInt 1) (CInt 2) ''2023-02-14'' CNull (CInt 40)]\<rparr>"

section \<open>Properties of the engine\<close>

subsection \<open>Time ranges\<close>

lemma column_max_Max: "xs \<noteq> [] \<Longrightarrow> column_max xs = Some (Max (set xs))"
proof (induction xs)
  case Nil
  then show ?case by simp
next
  case (Cons x xs)
  show ?case
  proof (cases "xs = []")
    case True
    then show ?thesis by simp
  next
    case False
    with Cons have "column_max xs = Some (Max (set xs))" by simp
    with False show ?thesis by (simp add: Max_insert)
  qed
qed

lemma max_year_row: "df \<noteq> [] \<Longrightarrow> filter (\<lambda>r. year r = Max (year ` set df)) df \<noteq> []"
proof -
  assume "df \<noteq> []"
  then have "Max (year ` set df) \<in> year ` set df"
    by (intro Max_in) auto
  then obtain r where "r \<in> set df" "year r = Max (year ` set df)" by auto
  then show ?thesis by (auto simp: filter_empty_conv)
qed

lemma max_year_of_table: "df \<noteq> [] \<Longrightarrow> column_max (map year df) = Some (Max (year ` set df))"
  using column_max_Max [of "map year df"] by simp

lemma slice_last_quarter_eq:
  assumes "df \<noteq> []"
  shows "slice_last_quarter df =
           Inr (Table (filter (\<lambda>r. (year r, quarter r) = spec_last_quarter_target df) df))"
proof -
  let ?my = "Max (year ` set df)"
  let ?sel = "filter (\<lambda>r. year r = ?my) df"
  have my: "column_max (map year df) = Some ?my"
    using assms by (rule max_year_of_table)
  have "?sel \<noteq> []" using assms by (rule max_year_row)
  then have mq: "column_max (map quarter ?sel) = Some (Max (quarter ` set ?sel))"
    using column_max_Max [of "map quarter ?sel"] by simp
  show ?thesis
    by (simp add: slice_last_quarter_def my mq spec_last_quarter_target_def Let_def)
qed

lemma slice_last_quarter_empty:
  "slice_last_quarter [] = Inl (ValueError ''cannot convert float NaN to integer'')"
  by (simp add: slice_last_quarter_def)

lemma apply_time_range_Table:
  assumes "apply_time_range df plan = Inr (Table sliced)"
  shows "sliced = filter (spec_time_slice df (time_range plan)) df"
proof (cases "tr_type (time_range plan)")
  case RAll
  with assms show ?thesis by (simp add: apply_time_range_def spec_time_slice_def)
next
  case RYear
  with assms obtain y where y: "tr_year (time_range plan) = Some y"
    and s: "sliced = filter (\<lambda>r. year r = y) df"
    by (auto simp: apply_time_range_def Let_def split: option.splits)
  have "spec_time_slice df (time_range plan) = (\<lambda>r. year r = y)"
    using RYear y by (auto simp: spec_time_slice_def)
  with s show ?thesis by simp
next
  case RQuarter
  with assms obtain y q where y: "tr_year (time_range plan) = Some y"
    and q: "tr_quarter (time_range plan) = Some q"
    and s: "sliced = filter (\<lambda>r. year r = y \<and> quarter r = q) df"
    by (auto simp: apply_time_range_def Let_def split: option.splits)
  have "spec_time_slice df (time_range plan) = (\<lambda>r. year r = y \<and> quarter r = q)"
    using RQuarter y q by (auto simp: spec_time_slice_def)
  with s show ?thesis by simp
next
  case RLastQuarter
  show ?thesis
  proof (cases "df = []")
    case True
    with RLastQuarter assms show ?thesis
      by (simp add: apply_time_range_def slice_last_quarter_empty)
  next
    case False
    have "spec_time_slice df (time_range plan) =
            (\<lambda>r. (year r, quarter r) = spec_last_quarter_target df)"
      using RLastQuarter by (auto simp: spec_time_slice_def)
    moreover have "slice_last_quarter df = Inr (Table sliced)"
      using RLastQuarter assms by (simp add: apply_time_range_def)
    ultimately show ?thesis
      using slice_last_quarter_eq [OF False] by simp
  qed
next
  case RLastNYears
  with assms show ?thesis
    by (simp add: apply_time_range_def Let_def split: if_splits option.splits)
qed

text \<open>
  C8. On a non-empty table \<open>last_quarter\<close> slices to the rows of exactly one
  (year, quarter) pair, the one the specification computes: with maxYear the maximum year
  present and maxQ the maximum quarter present within maxYear, it is (maxYear - 1, 4) when
  maxQ = 1 and (maxYear, maxQ - 1) otherwise.
\<close>

theorem last_quarter_slices_to_target:
  assumes "df \<noteq> []"
  shows "slice_last_quarter df =
           Inr (Table (filter (\<lambda>r. (year r, quarter r) = spec_last_quarter_target df) df))"
  using assms by (rule slice_last_quarter_eq)

theorem last_quarter_slices_to_target_witness:
  "example_table \<noteq> [] \<and> spec_last_quarter_target example_table = (2022, 4) \<and>
   slice_last_quarter example_table = Inr (Table [example_row 2022 4 12 ''IT'' ''A'' 50 10])"
proof -
  have ne: "example_table \<noteq> []"
    by (simp add: example_table_def)
  have tgt: "spec_last_quarter_target example_table = (2022, 4)"
    by code_simp
  have "filter (\<lambda>r. (year r, quarter r) = (2022, 4)) example_table =
          [example_row 2022 4 12 ''IT'' ''A'' 50 10]"
    by (simp add: example_table_def example_row_def)
  with last_quarter_slices_to_target [OF ne] ne tgt show ?thesis
    by simp
qed


text \<open>
  C10. Against the empty table a plan whose time range is \<open>last_quarter\<close> or
  \<open>last_n_years\<close> raises an error and returns no subset; the conversion of the missing
  maximum to an integer, which raises there, is never reached on a table that has a row.
\<close>

theorem relative_ranges_need_rows:
  assumes "tr_type (time_range plan) = RLastQuarter \<or> tr_type (time_range plan) = RLastNYears"
  shows "(\<exists>msg. execute_with_subset srt [] plan = Inl (ValueError msg)) \<and>
         (df \<noteq> [] \<longrightarrow>
            apply_time_range df plan \<noteq> Inl (ValueError ''cannot convert float NaN to integer''))"
proof
  show "\<exists>msg. execute_with_subset srt [] plan = Inl (ValueError msg)"
    using assms
    by (auto simp: execute_with_subset_def apply_time_range_def slice_last_quarter_def Let_def)
next
  show "df \<noteq> [] \<longrightarrow>
          apply_time_range df plan \<noteq> Inl (ValueError ''cannot convert float NaN to integer'')"
  proof
    assume ne: "df \<noteq> []"
    then have my: "column_max (map year df) = Some (Max (year ` set df))"
      by (rule max_year_of_table)
    show "apply_time_range df plan \<noteq> Inl (ValueError ''cannot convert float NaN to integer'')"
      using assms slice_last_quarter_eq [OF ne]
      by (auto simp: apply_time_range_def Let_def my)
  qed
qed

theorem relative_ranges_need_rows_witness:
  "(tr_type (time_range (aggregate_plan (range_of RLastQuarter None None))) = RLastQuarter \<or>
    tr_type (time_range (aggregate_plan (range_of RLastQuarter None None))) = RLastNYears) \<and>
   (\<exists>msg. execute_with_subset sort_key [] (aggregate_plan (range_of RLastQuarter None None)) =
      Inl (ValueError msg)) \<and>
   example_table \<noteq> [] \<and>
   apply_time_range example_table (aggregate_plan (range_of RLastQuarter None None)) \<noteq>
     Inl (ValueError ''cannot convert float NaN to integer'')"
proof -
  have t: "tr_type (time_range (aggregate_plan (range_of RLastQuarter None None))) = RLastQuarter \<or>
    tr_type (time_range (aggregate_plan (range_of RLastQuarter None None))) = RLastNYears"
    by (simp add: aggregate_plan_def range_of_def)
  have ne: "example_table \<noteq> []"
    by (simp add: example_table_def)
  from relative_ranges_need_rows [OF t, of sort_key example_table] t ne show ?thesis
    by blast
qed

text \<open>
  C1, at two plans on the example table. With \<open>year\<close> unset the \<open>last_n_years\<close>
  slice raises; with \<open>year\<close> set it evaluates \<open>df[mask1] & mask2\<close>, which is not the
  selection of the rows of the last two years.
\<close>

theorem last_n_years_on_example:
  "apply_time_range example_table (aggregate_plan (range_of RLastNYears None (Some 2))) =
     Inl (ValueError ''time_range.year is required for type=last_n_years'') \<and>
   apply_time_range example_table (aggregate_plan (range_of RLastNYears (Some 2023) (Some 2))) =
     Inr (FrameAndSeries
            [example_row 2022 4 12 ''IT'' ''A'' 50 10,
             example_row 2023 1 1 ''IT'' ''B'' 30 5,
             example_row 2023 1 2 ''FR'' ''C'' 80 20]
            [True, True, True, True]) \<and>
   execute_with_subset sort_key example_table
       (aggregate_plan (range_of RLastNYears (Some 2023) (Some 2))) = Inl NotATable"
  by code_simp

subsection \<open>Filters and provenance\<close>

lemma f_op_eq: "f_op f = OpEq"
  by (cases "f_op f") simp

lemma filter_loop_eq: "filter_loop out fs = filter (\<lambda>r. \<forall>f\<in>set fs. matches f r) out"
  by (induction fs arbitrary: out) (auto simp: f_op_eq intro: filter_cong)

lemma metric_value_Revenue: "metric_value Revenue = revenue"
  by (rule ext) simp

lemma execute_with_subset_Inr:
  assumes "execute_with_subset srt df plan = Inr res"
  shows "\<exists>sliced. apply_time_range df plan = Inr (Table sliced) \<and>
           subset_df res = filter (\<lambda>r. \<forall>f\<in>set (filters plan). matches f r) sliced \<and>
           dispatch srt (subset_df res) plan = Inr (result_df res)"
proof (cases "apply_time_range df plan")
  case (Inl e)
  with assms show ?thesis by (simp add: execute_with_subset_def)
next
  case (Inr fr)
  show ?thesis
  proof (cases fr)
    case (FrameAndSeries a b)
    with Inr assms show ?thesis by (simp add: execute_with_subset_def)
  next
    case (Table sliced)
    let ?sub = "filter (\<lambda>r. \<forall>f\<in>set (filters plan). matches f r) sliced"
    from Inr Table assms obtain out where
      d: "dispatch srt ?sub plan = Inr out" and r: "res = \<lparr>result_df = out, subset_df = ?sub\<rparr>"
      by (auto simp: execute_with_subset_def apply_filters_def filter_loop_eq Let_def
            split: sum.splits)
    from r have "subset_df res = ?sub" "result_df res = out" by simp_all
    with d Inr Table show ?thesis by simp
  qed
qed

lemma series_eq_iff: "series_eq a b \<longleftrightarrow> a = b \<and> a \<noteq> Null"
  by (cases a; cases b) simp_all

lemma matches_iff: "matches f r \<longleftrightarrow> dim_value (f_field f) r = f_value f \<and> f_value f \<noteq> Null"
  by (auto simp: matches_def series_eq_iff)

lemma signed_take_bit_add_right:
  "signed_take_bit n (a + signed_take_bit n b) = signed_take_bit n (a + b :: int)"
  by (metis signed_take_bit_add signed_take_bit_signed_take_bit min.idem)

lemma sint_sum_list:
  "sint (sum_list ws :: 64 word) = signed_take_bit 63 (\<Sum>w\<leftarrow>ws. sint w)"
proof (induction ws)
  case Nil
  show ?case by simp
next
  case (Cons w ws)
  have "sint (w + sum_list ws) = signed_take_bit 63 (sint w + sint (sum_list ws))"
    by (simp add: sint_word_ariths)
  also have "\<dots> = signed_take_bit 63 (sint w + (\<Sum>w\<leftarrow>ws. sint w))"
    unfolding Cons.IH by (rule signed_take_bit_add_right)
  finally show ?case by simp
qed

lemma signed_take_bit_63: "signed_take_bit 63 k = spec_wrap64 (k :: int)"
  by (simp add: signed_take_bit_eq_take_bit_shift take_bit_eq_mod spec_wrap64_def)

lemma spec_wrap64_id: "in_int64 k \<Longrightarrow> spec_wrap64 k = k"
  unfolding signed_take_bit_63 [symmetric] in_int64_def
  by (rule signed_take_bit_int_eq_self) simp_all

lemma int64_val_series_sum:
  "int64_val (series_sum (map (metric_value m) rs)) = Num (of_int (spec_wrap64 (spec_exact_sum m rs)))"
  by (simp add: int64_val_def series_sum_def sint_sum_list signed_take_bit_63 spec_exact_sum_def
        o_def)

text \<open>
  C6, amended. Whatever the intent, the subset that \<open>execute_with_subset\<close> returns is
  exactly the rows of the table that survive the time-range slice and every equality
  filter: the rows whose cell in the filter's column equals the filter's value, a filter
  on the missing value keeping no row. The result is computed from that subset. For an
  aggregate plan with no grouping and the metric revenue, whose slice is a table, the run
  returns, and the revenue of its one result row is the sum of the revenue column of the
  subset in 64-bit arithmetic: the sum itself whenever that lies within int64.
\<close>

theorem subset_is_provenance:
  "(execute_with_subset srt df plan = Inr res \<longrightarrow>
      subset_df res =
        filter (\<lambda>r. spec_time_slice df (time_range plan) r \<and>
                     (\<forall>f\<in>set (filters plan).
                         dim_value (f_field f) r = f_value f \<and> f_value f \<noteq> Null)) df \<and>
      dispatch srt (subset_df res) plan = Inr (result_df res)) \<and>
   (intent plan = Aggregate \<longrightarrow> groupby plan = [] \<longrightarrow> metrics plan = [Revenue] \<longrightarrow>
    apply_time_range df plan = Inr (Table sliced) \<longrightarrow>
      (\<exists>out. execute_with_subset srt df plan = Inr out \<and>
         res_rows (result_df out) =
           [[(MetCol Revenue, Num (of_int (spec_wrap64 (spec_exact_sum Revenue (subset_df out)))))]] \<and>
         (in_int64 (spec_exact_sum Revenue (subset_df out)) \<longrightarrow>
            res_rows (result_df out) =
              [[(MetCol Revenue, Num (of_int (\<Sum>r\<leftarrow>subset_df out. sint (revenue r))))]])))"
proof (intro conjI impI)
  assume ex: "execute_with_subset srt df plan = Inr res"
  then obtain sliced' where a: "apply_time_range df plan = Inr (Table sliced')"
    and b: "subset_df res = filter (\<lambda>r. \<forall>f\<in>set (filters plan). matches f r) sliced'"
    and c: "dispatch srt (subset_df res) plan = Inr (result_df res)"
    using execute_with_subset_Inr by blast
  from a have "sliced' = filter (spec_time_slice df (time_range plan)) df"
    by (rule apply_time_range_Table)
  with b show "subset_df res =
        filter (\<lambda>r. spec_time_slice df (time_range plan) r \<and>
                     (\<forall>f\<in>set (filters plan).
                         dim_value (f_field f) r = f_value f \<and> f_value f \<noteq> Null)) df"
    by (simp add: matches_iff)
  from c show "dispatch srt (subset_df res) plan = Inr (result_df res)" .
next
  assume h: "intent plan = Aggregate" "groupby plan = []" "metrics plan = [Revenue]"
    "apply_time_range df plan = Inr (Table sliced)"
  let ?sub = "filter (\<lambda>r. \<forall>f\<in>set (filters plan). matches f r) sliced"
  let ?out = "\<lparr>result_df = \<lparr>res_columns = [MetCol Revenue],
                   res_rows = [[(MetCol Revenue, int64_val (series_sum (map (metric_value Revenue) ?sub)))]]\<rparr>,
               subset_df = ?sub\<rparr>"
  have run: "execute_with_subset srt df plan = Inr ?out"
    using h
    by (simp add: execute_with_subset_def apply_filters_def filter_loop_eq Let_def dispatch_def
          run_aggregate_def)
  have rows: "res_rows (result_df ?out) =
      [[(MetCol Revenue, Num (of_int (spec_wrap64 (spec_exact_sum Revenue (subset_df ?out)))))]]"
    by (simp add: int64_val_series_sum)
  have exact: "in_int64 (spec_exact_sum Revenue (subset_df ?out)) \<longrightarrow>
      res_rows (result_df ?out) =
        [[(MetCol Revenue, Num (of_int (\<Sum>r\<leftarrow>subset_df ?out. sint (revenue r))))]]"
  proof
    assume "in_int64 (spec_exact_sum Revenue (subset_df ?out))"
    then have "spec_wrap64 (spec_exact_sum Revenue (subset_df ?out)) =
        spec_exact_sum Revenue (subset_df ?out)"
      by (rule spec_wrap64_id)
    with rows show "res_rows (result_df ?out) =
        [[(MetCol Revenue, Num (of_int (\<Sum>r\<leftarrow>subset_df ?out. sint (revenue r))))]]"
      by (simp add: spec_exact_sum_def)
  qed
  from run rows exact show "\<exists>out. execute_with_subset srt df plan = Inr out \<and>
         res_rows (result_df out) =
           [[(MetCol Revenue, Num (of_int (spec_wrap64 (spec_exact_sum Revenue (subset_df out)))))]] \<and>
         (in_int64 (spec_exact_sum Revenue (subset_df out)) \<longrightarrow>
            res_rows (result_df out) =
              [[(MetCol Revenue, Num (of_int (\<Sum>r\<leftarrow>subset_df out. sint (revenue r))))]])"
    by blast
qed

theorem subset_is_provenance_witness:
  "execute_with_subset sort_key example_table filtered_plan =
     Inr \<lparr>result_df = \<lparr>res_columns = [MetCol Revenue],
                        res_rows = [[(MetCol Revenue, Num 30)]]\<rparr>,
          subset_df = [example_row 2023 1 1 ''IT'' ''B'' 30 5]\<rparr> \<and>
   filter (\<lambda>r. spec_time_slice example_table (time_range filtered_plan) r \<and>
                (\<forall>f\<in>set (filters filtered_plan).
                    dim_value (f_field f) r = f_value f \<and> f_value f \<noteq> Null)) example_table =
     [example_row 2023 1 1 ''IT'' ''B'' 30 5] \<and>
   (\<Sum>r\<leftarrow>[example_row 2023 1 1 ''IT'' ''B'' 30 5]. sint (revenue r)) = 30"
proof -
  let ?res = "\<lparr>result_df = \<lparr>res_columns = [MetCol Revenue],
                        res_rows = [[(MetCol Revenue, Num 30)]]\<rparr>,
          subset_df = [example_row 2023 1 1 ''IT'' ''B'' 30 5]\<rparr>"
  have ev: "execute_with_subset sort_key example_table filtered_plan = Inr ?res"
    by code_simp
  have s: "(\<Sum>r\<leftarrow>[example_row 2023 1 1 ''IT'' ''B'' 30 5]. sint (revenue r)) = 30"
    by (simp add: example_row_def)
  from subset_is_provenance [of sort_key example_table filtered_plan ?res] ev
  have "subset_df ?res =
        filter (\<lambda>r. spec_time_slice example_table (time_range filtered_plan) r \<and>
                     (\<forall>f\<in>set (filters filtered_plan).
                         dim_value (f_field f) r = f_value f \<and> f_value f \<noteq> Null)) example_table"
    by blast
  then have f: "filter (\<lambda>r. spec_time_slice example_table (time_range filtered_plan) r \<and>
                (\<forall>f\<in>set (filters filtered_plan).
                    dim_value (f_field f) r = f_value f \<and> f_value f \<noteq> Null)) example_table =
     [example_row 2023 1 1 ''IT'' ''B'' 30 5]"
    by simp
  show ?thesis
    by (rule conjI [OF ev conjI [OF f s]])
qed

text \<open>
  C6 as stated fails: on two rows of revenue 9223372036854775807 and 1 the subset is both
  rows, whose revenues sum to 9223372036854775808, and the revenue of the result is
  -9223372036854775808.
\<close>

theorem subset_sum_overflow_counterexample:
  "execute_with_subset sort_key overflow_table (aggregate_plan (range_of RAll None None)) =
     Inr \<lparr>result_df = \<lparr>res_columns = [MetCol Revenue],
                        res_rows = [[(MetCol Revenue, Num (- 9223372036854775808))]]\<rparr>,
          subset_df = overflow_table\<rparr> \<and>
   (\<Sum>r\<leftarrow>overflow_table. sint (revenue r)) = 9223372036854775808"
  by code_simp

subsection \<open>Aggregation\<close>

lemma set_dict_keys: "set (dict_keys xs) = set xs"
  by (induction xs rule: dict_keys.induct) auto

lemma distinct_dict_keys: "distinct (dict_keys xs)"
  by (induction xs rule: dict_keys.induct) (auto simp: set_dict_keys)

lemma set_group_keys: "set (group_keys g df) = key_of g ` set df"
  by (simp add: group_keys_def)

lemma distinct_group_keys: "distinct (group_keys g df)"
  by (simp add: group_keys_def)

lemma length_key_of: "length (key_of g r) = length g"
  by (simp add: key_of_def)

lemma length_group_key: "k \<in> set (group_keys g df) \<Longrightarrow> length k = length g"
  by (auto simp: set_group_keys length_key_of)

lemma map_of_zip_DimCol_MetCol: "map_of (zip (map DimCol g) k) (MetCol m) = None"
  by (induction g arbitrary: k) (auto simp: map_of_eq_None_iff dest!: set_zip_leftD)

lemma map_of_MetCol:
  "m \<in> set ms \<Longrightarrow> map_of (map (\<lambda>m. (MetCol m, f m)) ms) (MetCol m) = Some (f m)"
  by (induction ms) auto

lemma cell_group_row_metric:
  "m \<in> set ms \<Longrightarrow> cell (MetCol m) (group_row g ms df k) = int64_val (group_sum g df k m)"
  by (simp add: cell_def group_row_def map_of_zip_DimCol_MetCol map_add_def map_of_MetCol)

lemma cell_zip_dim:
  "distinct g \<Longrightarrow> length k = length g \<Longrightarrow>
   map (\<lambda>d. cell (DimCol d) (zip (map DimCol g) k @ rest)) g = k"
proof (induction g arbitrary: k)
  case Nil
  then show ?case by simp
next
  case (Cons d g)
  then obtain v k' where k: "k = v # k'" by (cases k) auto
  with Cons.prems have len: "length k' = length g" and dist: "distinct g" and nin: "d \<notin> set g"
    by auto
  have "map (\<lambda>x. cell (DimCol x) ((DimCol d, v) # zip (map DimCol g) k' @ rest)) g =
        map (\<lambda>x. cell (DimCol x) (zip (map DimCol g) k' @ rest)) g"
    using nin by (intro map_cong) (auto simp: cell_def)
  with Cons.IH [OF dist len] show ?case
    by (simp add: k cell_def)
qed

lemma key_of_group_row:
  "distinct g \<Longrightarrow> length k = length g \<Longrightarrow>
   map (\<lambda>d. cell (DimCol d) (group_row g ms df k)) g = k"
  unfolding group_row_def by (rule cell_zip_dim)

lemma result_keys_groupby:
  assumes "distinct g"
  shows "map (result_key g) (map (group_row g ms df) (group_keys g df)) = group_keys g df"
proof -
  have "map (\<lambda>k. result_key g (group_row g ms df k)) (group_keys g df) = map (\<lambda>k. k) (group_keys g df)"
    using assms by (intro map_cong refl) (simp add: result_key_def key_of_group_row length_group_key)
  then show ?thesis by (simp add: o_def)
qed

lemma sum_cell_exact:
  assumes "c = Num (of_int (spec_wrap64 (spec_exact_sum m rs)))"
  shows "in_int64 (spec_exact_sum m rs) \<longrightarrow> c = Num (of_int (spec_exact_sum m rs))"
  using assms by (simp add: spec_wrap64_id)

text \<open>
  C7, amended. An aggregate plan with no metric fails. With a metric and no grouping the
  result is one row that holds, for each metric, its sum over the whole subset in 64-bit
  arithmetic, which is the sum itself whenever that lies within int64, and 0 on the empty
  subset. With a grouping (of distinct dimensions) the result has one row per distinct
  grouping key of the subset, a key with a missing value being a key like any other, and
  each row holds, in the same arithmetic, the sums over the rows of its key.
\<close>

theorem run_aggregate_contract:
  "(metrics plan = [] \<longrightarrow> run_aggregate df plan = Inl (ValueError ''aggregate requires at least one metric'')) \<and>
   (metrics plan \<noteq> [] \<longrightarrow> groupby plan = [] \<longrightarrow>
      (\<exists>res r. run_aggregate df plan = Inr res \<and> res_rows res = [r] \<and>
         (\<forall>m\<in>set (metrics plan).
            cell (MetCol m) r = Num (of_int (spec_wrap64 (spec_exact_sum m df))) \<and>
            (in_int64 (spec_exact_sum m df) \<longrightarrow>
               cell (MetCol m) r = Num (of_int (spec_exact_sum m df)))) \<and>
         (df = [] \<longrightarrow> (\<forall>m\<in>set (metrics plan). cell (MetCol m) r = Num 0)))) \<and>
   (metrics plan \<noteq> [] \<longrightarrow> groupby plan \<noteq> [] \<longrightarrow> distinct (groupby plan) \<longrightarrow>
      (\<exists>res. run_aggregate df plan = Inr res \<and>
         distinct (map (result_key (groupby plan)) (res_rows res)) \<and>
         set (map (result_key (groupby plan)) (res_rows res)) = key_of (groupby plan) ` set df \<and>
         (\<forall>r\<in>set (res_rows res). \<forall>m\<in>set (metrics plan).
            cell (MetCol m) r =
              Num (of_int (spec_wrap64 (spec_exact_sum m
                     (filter (\<lambda>x. key_of (groupby plan) x = result_key (groupby plan) r) df)))) \<and>
            (in_int64 (spec_exact_sum m
                     (filter (\<lambda>x. key_of (groupby plan) x = result_key (groupby plan) r) df)) \<longrightarrow>
               cell (MetCol m) r =
                 Num (of_int (spec_exact_sum m
                     (filter (\<lambda>x. key_of (groupby plan) x = result_key (groupby plan) r) df)))))))"
proof (intro conjI impI)
  assume "metrics plan = []"
  then show "run_aggregate df plan = Inl (ValueError ''aggregate requires at least one metric'')"
    by (simp add: run_aggregate_def)
next
  assume ms: "metrics plan \<noteq> []" and g: "groupby plan = []"
  let ?r = "map (\<lambda>m. (MetCol m, int64_val (series_sum (map (metric_value m) df))))
                (dict_keys (metrics plan))"
  have c: "cell (MetCol m) ?r = Num (of_int (spec_wrap64 (spec_exact_sum m df)))"
    if "m \<in> set (metrics plan)" for m
    using that by (simp add: cell_def map_of_MetCol set_dict_keys int64_val_series_sum)
  have run: "run_aggregate df plan =
          Inr \<lparr>res_columns = map MetCol (dict_keys (metrics plan)), res_rows = [?r]\<rparr>"
    using ms g by (simp add: run_aggregate_def Let_def)
  have all: "\<forall>m\<in>set (metrics plan).
            cell (MetCol m) ?r = Num (of_int (spec_wrap64 (spec_exact_sum m df))) \<and>
            (in_int64 (spec_exact_sum m df) \<longrightarrow>
               cell (MetCol m) ?r = Num (of_int (spec_exact_sum m df)))"
    using c sum_cell_exact by blast
  have empty: "df = [] \<longrightarrow> (\<forall>m\<in>set (metrics plan). cell (MetCol m) ?r = Num 0)"
    using c by (auto simp: spec_exact_sum_def spec_wrap64_def)
  from run all empty show "\<exists>res r. run_aggregate df plan = Inr res \<and> res_rows res = [r] \<and>
         (\<forall>m\<in>set (metrics plan).
            cell (MetCol m) r = Num (of_int (spec_wrap64 (spec_exact_sum m df))) \<and>
            (in_int64 (spec_exact_sum m df) \<longrightarrow>
               cell (MetCol m) r = Num (of_int (spec_exact_sum m df)))) \<and>
         (df = [] \<longrightarrow> (\<forall>m\<in>set (metrics plan). cell (MetCol m) r = Num 0))"
    by (intro exI [of _ "\<lparr>res_columns = map MetCol (dict_keys (metrics plan)), res_rows = [?r]\<rparr>"]
          exI [of _ ?r]) (simp add: spec_wrap64_id)
next
  assume ms: "metrics plan \<noteq> []" and g: "groupby plan \<noteq> []" and d: "distinct (groupby plan)"
  let ?g = "groupby plan" and ?ms = "dict_keys (metrics plan)"
  let ?res = "\<lparr>res_columns = map DimCol ?g @ map MetCol ?ms,
               res_rows = map (group_row ?g ?ms df) (group_keys ?g df)\<rparr>"
  have run: "run_aggregate df plan = Inr ?res"
    using ms g d by (simp add: run_aggregate_def groupby_agg_def Let_def)
  have keys: "map (result_key ?g) (res_rows ?res) = group_keys ?g df"
    using result_keys_groupby [OF d] by simp
  have sums: "cell (MetCol m) r =
      Num (of_int (spec_wrap64 (spec_exact_sum m (filter (\<lambda>x. key_of ?g x = result_key ?g r) df))))"
    if r: "r \<in> set (res_rows ?res)" and m: "m \<in> set (metrics plan)" for r m
  proof -
    from r obtain k where k: "k \<in> set (group_keys ?g df)" and rk: "r = group_row ?g ?ms df k"
      by auto
    have "result_key ?g r = k"
      using d k by (simp add: rk result_key_def key_of_group_row length_group_key)
    then show ?thesis
      using m by (simp add: rk cell_group_row_metric set_dict_keys group_sum_def int64_val_series_sum)
  qed
  have both: "\<forall>r\<in>set (res_rows ?res). \<forall>m\<in>set (metrics plan).
            cell (MetCol m) r =
              Num (of_int (spec_wrap64 (spec_exact_sum m
                     (filter (\<lambda>x. key_of ?g x = result_key ?g r) df)))) \<and>
            (in_int64 (spec_exact_sum m (filter (\<lambda>x. key_of ?g x = result_key ?g r) df)) \<longrightarrow>
               cell (MetCol m) r =
                 Num (of_int (spec_exact_sum m (filter (\<lambda>x. key_of ?g x = result_key ?g r) df))))"
    using sums sum_cell_exact by blast
  have dk: "distinct (map (result_key ?g) (res_rows ?res))"
    by (simp only: keys distinct_group_keys)
  have sk: "set (map (result_key ?g) (res_rows ?res)) = key_of ?g ` set df"
    by (simp only: keys set_group_keys)
  from run dk sk both show "\<exists>res. run_aggregate df plan = Inr res \<and>
         distinct (map (result_key ?g) (res_rows res)) \<and>
         set (map (result_key ?g) (res_rows res)) = key_of ?g ` set df \<and>
         (\<forall>r\<in>set (res_rows res). \<forall>m\<in>set (metrics plan).
            cell (MetCol m) r =
              Num (of_int (spec_wrap64 (spec_exact_sum m
                     (filter (\<lambda>x. key_of ?g x = result_key ?g r) df)))) \<and>
            (in_int64 (spec_exact_sum m (filter (\<lambda>x. key_of ?g x = result_key ?g r) df)) \<longrightarrow>
               cell (MetCol m) r =
                 Num (of_int (spec_exact_sum m (filter (\<lambda>x. key_of ?g x = result_key ?g r) df)))))"
    by (intro exI [of _ ?res] conjI)
qed

theorem run_aggregate_contract_witness:
  "metrics grouped_plan \<noteq> [] \<and> groupby grouped_plan \<noteq> [] \<and> distinct (groupby grouped_plan) \<and>
   (\<exists>res. run_aggregate example_table grouped_plan = Inr res \<and>
      distinct (map (result_key (groupby grouped_plan)) (res_rows res)) \<and>
      set (map (result_key (groupby grouped_plan)) (res_rows res)) =
        key_of (groupby grouped_plan) ` set example_table) \<and>
   run_aggregate example_table grouped_plan =
     Inr \<lparr>res_columns = [DimCol DCountry, MetCol Revenue, MetCol Profit],
          res_rows = [[(DimCol DCountry, Str ''FR''), (MetCol Revenue, Num 80), (MetCol Profit, Num 60)],
                      [(DimCol DCountry, Str ''IT''), (MetCol Revenue, Num 87), (MetCol Profit, Num 71)]]\<rparr> \<and>
   spec_exact_sum Revenue (filter (\<lambda>x. country x = Some ''IT'') example_table) = 87 \<and>
   in_int64 87"
proof -
  have m: "metrics grouped_plan \<noteq> []" and g: "groupby grouped_plan \<noteq> []"
    and d: "distinct (groupby grouped_plan)"
    by (simp_all add: grouped_plan_def)
  have ev: "run_aggregate example_table grouped_plan =
     Inr \<lparr>res_columns = [DimCol DCountry, MetCol Revenue, MetCol Profit],
          res_rows = [[(DimCol DCountry, Str ''FR''), (MetCol Revenue, Num 80), (MetCol Profit, Num 60)],
                      [(DimCol DCountry, Str ''IT''), (MetCol Revenue, Num 87), (MetCol Profit, Num 71)]]\<rparr>"
    by code_simp
  have s: "spec_exact_sum Revenue (filter (\<lambda>x. country x = Some ''IT'') example_table) = 87"
    by (simp add: spec_exact_sum_def example_table_def example_row_def)
  have i: "in_int64 87"
    by (simp add: in_int64_def)
  from run_aggregate_contract [of grouped_plan example_table] m g d
  have "\<exists>res. run_aggregate example_table grouped_plan = Inr res \<and>
      distinct (map (result_key (groupby grouped_plan)) (res_rows res)) \<and>
      set (map (result_key (groupby grouped_plan)) (res_rows res)) =
        key_of (groupby grouped_plan) ` set example_table"
    by blast
  with m g d ev s i show ?thesis
    by blast
qed

text \<open>
  C7 as stated fails: two rows of revenue 9223372036854775807 and 1 sum to
  9223372036854775808, and the one row of the aggregate holds -9223372036854775808.
\<close>

theorem aggregate_overflow_counterexample:
  "metrics (aggregate_plan (range_of RAll None None)) = [Revenue] \<and>
   groupby (aggregate_plan (range_of RAll None None)) = [] \<and>
   run_aggregate overflow_table (aggregate_plan (range_of RAll None None)) =
     Inr \<lparr>res_columns = [MetCol Revenue],
          res_rows = [[(MetCol Revenue, Num (- 9223372036854775808))]]\<rparr> \<and>
   spec_exact_sum Revenue overflow_table = 9223372036854775808"
  by code_simp

subsection \<open>Ranking and trend\<close>

lemma sorter_ok_sort_key: "sorter_ok sort_key"
  by (simp add: sorter_ok_def)

lemma singleton_le: "[a] \<le> [b] \<longleftrightarrow> a \<le> (b::'a::linorder)"
  by (auto simp: le_less)

lemma sorted_singleton_keys: "sorted (map (\<lambda>x. [f x]) xs) = sorted (map (f :: 'a \<Rightarrow> 'b::linorder) xs)"
  by (induction xs) (auto simp: singleton_le)

lemma sorter_ok_sorted: "sorter_ok srt \<Longrightarrow> sorted (map key (srt key xs))"
  by (simp add: sorter_ok_def)

lemma sorter_ok_mset: "sorter_ok srt \<Longrightarrow> mset (srt key xs) = mset xs"
  by (simp add: sorter_ok_def)

lemma sort_key_of_single: "sort_key_of [c] = (\<lambda>r. [cell c r])"
  by (rule ext) (simp add: sort_key_of_def)

lemma sort_values_ok:
  assumes "set by \<subseteq> set (res_columns res)"
  shows "sort_values srt by ascending res =
           Inr (res\<lparr>res_rows :=
                 (if ascending then srt (sort_key_of by) (res_rows res)
                  else rev (srt (sort_key_of by) (rev (res_rows res))))\<rparr>)"
proof -
  have "filter (\<lambda>c. c \<notin> set (res_columns res)) by = []"
    using assms by (auto simp: filter_empty_conv)
  then show ?thesis by (simp add: sort_values_def)
qed

text \<open>
  C2, amended. For a top-n plan with a non-empty grouping of distinct dimensions, a
  \<open>top_n\<close> that is not negative and a sort field among the metrics that are summed, the
  engine groups and sums, orders the groups by the sort field (descending unless \<open>asc\<close>
  is asked) and returns the first \<open>top_n\<close> of them: at most \<open>top_n\<close> rows, monotonic
  in the requested direction. The order of rows of equal value is the sorter's.
\<close>

theorem run_top_n_contract:
  assumes ok: "sorter_ok srt"
    and g: "groupby plan \<noteq> []" and d: "distinct (groupby plan)"
    and n: "top_n plan = Some n" and n0: "0 \<le> n"
    and sb: "sort_by plan = Some sb"
    and fld: "sb_field sb \<in> set (if metrics plan = [] then [Revenue] else metrics plan)"
  shows "\<exists>res ranked.
           run_top_n srt df plan = Inr res \<and>
           mset ranked =
             mset (map (group_row (groupby plan)
                          (dict_keys (if metrics plan = [] then [Revenue] else metrics plan)) df)
                       (group_keys (groupby plan) df)) \<and>
           (if sb_direction sb = Asc
            then sorted (map (cell (MetCol (sb_field sb))) ranked)
            else sorted_wrt (\<ge>) (map (cell (MetCol (sb_field sb))) ranked)) \<and>
           res_rows res = take (nat n) ranked \<and>
           length (res_rows res) \<le> nat n \<and>
           (if sb_direction sb = Asc
            then sorted (map (cell (MetCol (sb_field sb))) (res_rows res))
            else sorted_wrt (\<ge>) (map (cell (MetCol (sb_field sb))) (res_rows res)))"
proof -
  let ?ms = "dict_keys (if metrics plan = [] then [Revenue] else metrics plan)"
  let ?rows = "map (group_row (groupby plan) ?ms df) (group_keys (groupby plan) df)"
  let ?all = "\<lparr>res_columns = map DimCol (groupby plan) @ map MetCol ?ms, res_rows = ?rows\<rparr>"
  let ?c = "MetCol (sb_field sb)"
  let ?asc = "sb_direction sb = Asc"
  let ?ranked = "if ?asc then srt (sort_key_of [?c]) ?rows
                 else rev (srt (sort_key_of [?c]) (rev ?rows))"
  have agg: "groupby_agg (groupby plan) ?ms df = Inr ?all"
    using g d by (simp add: groupby_agg_def)
  have "set [?c] \<subseteq> set (res_columns ?all)"
    using fld by (simp add: set_dict_keys)
  then have sv: "sort_values srt [?c] ?asc ?all = Inr (?all\<lparr>res_rows := ?ranked\<rparr>)"
    using sort_values_ok [of "[?c]" ?all srt ?asc] by simp
  have run: "run_top_n srt df plan = Inr (head n (?all\<lparr>res_rows := ?ranked\<rparr>))"
    using g n sb agg sv by (simp add: run_top_n_def Let_def)
  have rows: "res_rows (head n (?all\<lparr>res_rows := ?ranked\<rparr>)) = take (nat n) ?ranked"
    using n0 by (simp add: head_def)
  have perm: "mset ?ranked = mset ?rows"
    using sorter_ok_mset [OF ok] by simp
  have mono: "if ?asc then sorted (map (cell ?c) ?ranked)
              else sorted_wrt (\<ge>) (map (cell ?c) ?ranked)"
  proof (cases ?asc)
    case True
    have "sorted (map (\<lambda>r. [cell ?c r]) (srt (\<lambda>r. [cell ?c r]) ?rows))"
      using sorter_ok_sorted [OF ok] .
    then show ?thesis
      using True by (simp add: sort_key_of_single sorted_singleton_keys)
  next
    case False
    have "sorted (map (\<lambda>r. [cell ?c r]) (srt (\<lambda>r. [cell ?c r]) (rev ?rows)))"
      using sorter_ok_sorted [OF ok] .
    then have "sorted (map (cell ?c) (srt (\<lambda>r. [cell ?c r]) (rev ?rows)))"
      by (simp add: sorted_singleton_keys)
    then have "sorted_wrt (\<ge>) (rev (map (cell ?c) (srt (\<lambda>r. [cell ?c r]) (rev ?rows))))"
      by (simp add: sorted_wrt_rev)
    then show ?thesis
      using False by (simp add: sort_key_of_single rev_map)
  qed
  have mono_take: "if ?asc then sorted (map (cell ?c) (take (nat n) ?ranked))
              else sorted_wrt (\<ge>) (map (cell ?c) (take (nat n) ?ranked))"
  proof (cases ?asc)
    case True
    with mono have "sorted (map (cell ?c) ?ranked)" by simp
    then have "sorted (take (nat n) (map (cell ?c) ?ranked))" by (rule sorted_wrt_take)
    with True show ?thesis by (simp add: take_map)
  next
    case False
    with mono have "sorted_wrt (\<ge>) (map (cell ?c) ?ranked)" by simp
    then have "sorted_wrt (\<ge>) (take (nat n) (map (cell ?c) ?ranked))" by (rule sorted_wrt_take)
    with False show ?thesis by (simp add: take_map)
  qed
  have res_mono: "if ?asc
      then sorted (map (cell ?c) (res_rows (head n (?all\<lparr>res_rows := ?ranked\<rparr>))))
      else sorted_wrt (\<ge>) (map (cell ?c) (res_rows (head n (?all\<lparr>res_rows := ?ranked\<rparr>))))"
    using mono_take by (simp only: rows)
  have len: "length (res_rows (head n (?all\<lparr>res_rows := ?ranked\<rparr>))) \<le> nat n"
    by (simp only: rows length_take min.cobounded2)
  from run perm mono rows len res_mono show ?thesis
    by blast
qed

theorem run_top_n_contract_witness:
  "sorter_ok sort_key \<and> groupby (top_n_plan 2) \<noteq> [] \<and> distinct (groupby (top_n_plan 2)) \<and>
   top_n (top_n_plan 2) = Some 2 \<and> (0::int) \<le> 2 \<and>
   sort_by (top_n_plan 2) = Some \<lparr>sb_field = Revenue, sb_direction = Desc\<rparr> \<and>
   (\<exists>res ranked.
      run_top_n sort_key example_table (top_n_plan 2) = Inr res \<and>
      res_rows res = take (nat 2) ranked \<and>
      length (res_rows res) \<le> nat 2 \<and>
      sorted_wrt (\<ge>) (map (cell (MetCol Revenue)) (res_rows res))) \<and>
   run_top_n sort_key example_table (top_n_plan 2) = Inr example_top_two"
proof -
  let ?sb = "\<lparr>sb_field = Revenue, sb_direction = Desc\<rparr>"
  have h: "groupby (top_n_plan 2) \<noteq> []" "distinct (groupby (top_n_plan 2))"
    "top_n (top_n_plan 2) = Some 2" "(0::int) \<le> 2" "sort_by (top_n_plan 2) = Some ?sb"
    "sb_field ?sb \<in> set (if metrics (top_n_plan 2) = [] then [Revenue] else metrics (top_n_plan 2))"
    by (simp_all add: top_n_plan_def)
  have ev: "run_top_n sort_key example_table (top_n_plan 2) = Inr example_top_two"
    by code_simp
  from run_top_n_contract [OF sorter_ok_sort_key h, of example_table]
  obtain res ranked where
    "run_top_n sort_key example_table (top_n_plan 2) = Inr res"
    "res_rows res = take (nat 2) ranked"
    "length (res_rows res) \<le> nat 2"
    "sorted_wrt (\<ge>) (map (cell (MetCol Revenue)) (res_rows res))"
    by auto
  with h ev sorter_ok_sort_key show ?thesis
    by blast
qed

text \<open>
  C2 as stated fails: with \<open>top_n = -1\<close> the engine returns \<open>head(-1)\<close>, all groups but
  the last, here two rows, which is more than \<open>top_n\<close>.
\<close>

theorem top_n_negative_counterexample:
  "top_n (top_n_plan (- 1)) = Some (- 1) \<and>
   run_top_n sort_key example_table (top_n_plan (- 1)) = Inr example_top_two \<and>
   \<not> int (length (res_rows example_top_two)) \<le> - 1"
  by code_simp

text \<open>A sort field that is not among the summed metrics is not a column of the result.\<close>

lemma top_n_sort_field_not_summed:
  "run_top_n sort_key example_table
     ((top_n_plan 2)\<lparr>sort_by := Some \<lparr>sb_field = Profit, sb_direction = Desc\<rparr>\<rparr>) =
   Inl (KeyError ''profit'')"
  by code_simp

lemma sort_key_of_dims: "sort_key_of (map DimCol g) = result_key g"
  by (rule ext) (simp add: sort_key_of_def result_key_def o_def)

lemma sort_values_dims:
  assumes "DimCol ` set g \<subseteq> set (res_columns res)"
  shows "sort_values srt (map DimCol g) True res =
           Inr (res\<lparr>res_rows := srt (result_key g) (res_rows res)\<rparr>)"
  using sort_values_ok [of "map DimCol g" res srt True] assms
  by (simp add: sort_key_of_dims)

text \<open>
  C9. A trend plan groups by its own grouping, or by [year, month] when that is empty,
  and sums its own metrics, or [revenue, cost] when there are none; the result holds the
  rows of these groups, ascending by (year, month) when both are in the grouping and
  ascending by the grouping columns in their declared order otherwise.
\<close>

theorem run_trend_contract:
  assumes ok: "sorter_ok srt"
    and grp_def: "grp = (if groupby plan = [] then [DYear, DMonth] else groupby plan)"
    and mts: "ms = (if metrics plan = [] then [Revenue, Cost] else metrics plan)"
    and d: "distinct (groupby plan)"
  shows "\<exists>res. run_trend srt df plan = Inr res \<and>
           res_columns res = map DimCol grp @ map MetCol (dict_keys ms) \<and>
           mset (res_rows res) =
             mset (map (group_row grp (dict_keys ms) df) (group_keys grp df)) \<and>
           (if DYear \<in> set grp \<and> DMonth \<in> set grp
            then sorted (map (result_key [DYear, DMonth]) (res_rows res))
            else sorted (map (result_key grp) (res_rows res)))"
proof -
  let ?rows = "map (group_row grp (dict_keys ms) df) (group_keys grp df)"
  let ?all = "\<lparr>res_columns = map DimCol grp @ map MetCol (dict_keys ms), res_rows = ?rows\<rparr>"
  have gne: "grp \<noteq> []" and gd: "distinct grp"
    using grp_def d by auto
  have agg: "groupby_agg grp (dict_keys ms) df = Inr ?all"
    using gne gd by (simp add: groupby_agg_def)
  show ?thesis
  proof (cases "DYear \<in> set grp \<and> DMonth \<in> set grp")
    case True
    let ?by = "[DYear, DMonth]"
    have "DimCol ` set ?by \<subseteq> set (res_columns ?all)"
      using True by auto
    from sort_values_dims [OF this, of srt]
    have sv: "sort_values srt [DimCol DYear, DimCol DMonth] True ?all =
        Inr (?all\<lparr>res_rows := srt (result_key ?by) ?rows\<rparr>)"
      by simp
    have run: "run_trend srt df plan = Inr (?all\<lparr>res_rows := srt (result_key ?by) ?rows\<rparr>)"
      using True agg sv unfolding run_trend_def Let_def grp_def [symmetric] mts [symmetric]
      by simp
    show ?thesis
      using True run sorter_ok_sorted [OF ok, of "result_key ?by" ?rows]
        sorter_ok_mset [OF ok, of "result_key ?by" ?rows]
      by simp
  next
    case False
    have "DimCol ` set grp \<subseteq> set (res_columns ?all)"
      by auto
    from sort_values_dims [OF this, of srt]
    have sv: "sort_values srt (map DimCol grp) True ?all =
        Inr (?all\<lparr>res_rows := srt (result_key grp) ?rows\<rparr>)"
      by simp
    have run: "run_trend srt df plan = Inr (?all\<lparr>res_rows := srt (result_key grp) ?rows\<rparr>)"
      using agg sv
      unfolding run_trend_def Let_def grp_def [symmetric] mts [symmetric] if_not_P [OF False]
      by simp
    show ?thesis
      using run sorter_ok_sorted [OF ok, of "result_key grp" ?rows]
        sorter_ok_mset [OF ok, of "result_key grp" ?rows]
      unfolding if_not_P [OF False]
      by simp
  qed
qed

theorem run_trend_contract_witness:
  "sorter_ok sort_key \<and>
   [DYear, DMonth] = (if groupby trend_plan = [] then [DYear, DMonth] else groupby trend_plan) \<and>
   [Revenue, Cost] = (if metrics trend_plan = [] then [Revenue, Cost] else metrics trend_plan) \<and>
   distinct (groupby trend_plan) \<and>
   (\<exists>res. run_trend sort_key example_table trend_plan = Inr res \<and>
      res_columns res = [DimCol DYear, DimCol DMonth, MetCol Revenue, MetCol Cost] \<and>
      sorted (map (result_key [DYear, DMonth]) (res_rows res))) \<and>
   run_trend sort_key example_table trend_plan =
     Inr \<lparr>res_columns = [DimCol DYear, DimCol DMonth, MetCol Revenue, MetCol Cost],
          res_rows =
            [[(DimCol DYear, Num 2021), (DimCol DMonth, Num 7), (MetCol Revenue, Num 7), (MetCol Cost, Num 1)],
             [(DimCol DYear, Num 2022), (DimCol DMonth, Num 12), (MetCol Revenue, Num 50), (MetCol Cost, Num 10)],
             [(DimCol DYear, Num 2023), (DimCol DMonth, Num 1), (MetCol Revenue, Num 30), (MetCol Cost, Num 5)],
             [(DimCol DYear, Num 2023), (DimCol DMonth, Num 2), (MetCol Revenue, Num 80), (MetCol Cost, Num 20)]]\<rparr>"
proof -
  have h: "[DYear, DMonth] = (if groupby trend_plan = [] then [DYear, DMonth] else groupby trend_plan)"
    "[Revenue, Cost] = (if metrics trend_plan = [] then [Revenue, Cost] else metrics trend_plan)"
    "distinct (groupby trend_plan)"
    by (simp_all add: trend_plan_def)
  have ev: "run_trend sort_key example_table trend_plan =
     Inr \<lparr>res_columns = [DimCol DYear, DimCol DMonth, MetCol Revenue, MetCol Cost],
          res_rows =
            [[(DimCol DYear, Num 2021), (DimCol DMonth, Num 7), (MetCol Revenue, Num 7), (MetCol Cost, Num 1)],
             [(DimCol DYear, Num 2022), (DimCol DMonth, Num 12), (MetCol Revenue, Num 50), (MetCol Cost, Num 10)],
             [(DimCol DYear, Num 2023), (DimCol DMonth, Num 1), (MetCol Revenue, Num 30), (MetCol Cost, Num 5)],
             [(DimCol DYear, Num 2023), (DimCol DMonth, Num 2), (MetCol Revenue, Num 80), (MetCol Cost, Num 20)]]\<rparr>"
    by code_simp
  from run_trend_contract [OF sorter_ok_sort_key h, of example_table]
  obtain res where
    "run_trend sort_key example_table trend_plan = Inr res"
    "res_columns res = map DimCol [DYear, DMonth] @ map MetCol (dict_keys [Revenue, Cost])"
    "sorted (map (result_key [DYear, DMonth]) (res_rows res))"
    by auto
  then have "\<exists>res. run_trend sort_key example_table trend_plan = Inr res \<and>
      res_columns res = [DimCol DYear, DimCol DMonth, MetCol Revenue, MetCol Cost] \<and>
      sorted (map (result_key [DYear, DMonth]) (res_rows res))"
    by auto
  with h ev sorter_ok_sort_key show ?thesis
    by blast
qed


section \<open>Properties of the construction of a plan\<close>

lemma find_not_None: "find P xs \<noteq> None \<longleftrightarrow> (\<exists>x\<in>set xs. P x)"
  by (auto simp: find_None_iff)

lemma those_map_None: "x \<in> set xs \<Longrightarrow> f x = None \<Longrightarrow> those (map f xs) = None"
  by (induction xs) (auto split: option.splits)

text \<open>The names a filter may carry are the dimensions of the registry.\<close>

lemma parse_filter_field_ok: "parse_filter_field s \<noteq> None \<longleftrightarrow> s \<in> set DIMENSIONS"
  unfolding parse_filter_field_def find_not_None FilterField_def DIMENSIONS_def by auto

text \<open>The names a grouping may carry are the dimensions of the registry but two.\<close>

lemma parse_groupby_field_ok:
  "parse_groupby_field s \<noteq> None \<longleftrightarrow>
     s \<in> set DIMENSIONS \<and> s \<noteq> ''communication'' \<and> s \<noteq> ''campaign_category''"
  unfolding parse_groupby_field_def find_not_None GroupByField_def DIMENSIONS_def by auto

text \<open>
  A plan whose \<open>groupby\<close> holds anything but one of the nine names of \<open>GroupByField\<close>
  is rejected.
\<close>

lemma groupby_name_rejected:
  assumes "map_of obj ''groupby'' = Some (JArr gs)" and "g \<in> set gs"
    and "\<forall>s. g = JStr s \<longrightarrow> parse_groupby_field s = None"
  shows "QueryPlan P (JObj obj) = Inl ValidationError"
proof -
  have "literal parse_groupby_field g = None"
    using assms(3) by (cases g) (simp_all add: literal_def)
  with assms(2) have "those (map (literal parse_groupby_field) gs) = None"
    by (rule those_map_None)
  with assms(1) have "field_default obj ''groupby'' [] (list_of (literal parse_groupby_field)) = None"
    by (simp add: field_default_def list_of_def)
  then show ?thesis
    by (simp add: QueryPlan_def split: option.splits)
qed

text \<open>
  C3. \<open>communication\<close> and \<open>campaign_category\<close> are dimensions of the registry, and
  a plan grouped by either is rejected at construction, whatever the library does with
  the integer fields, while the same plan grouped by \<open>country\<close> is accepted, its filter
  on \<open>communication\<close> included.
\<close>

theorem groupby_rejects_registry_dimensions:
  "''communication'' \<in> set DIMENSIONS \<and> ''campaign_category'' \<in> set DIMENSIONS \<and>
   QueryPlan P (plan_data_grouped_by ''communication'') = Inl ValidationError \<and>
   QueryPlan P (plan_data_grouped_by ''campaign_category'') = Inl ValidationError \<and>
   QueryPlan P (plan_data_grouped_by ''country'') =
     Inr \<lparr>intent = Aggregate, metrics = [Revenue], groupby = [DCountry],
          time_range = \<lparr>tr_type = RAll, tr_year = None, tr_quarter = None, n_years = None\<rparr>,
          filters = [\<lparr>f_field = DCommunication, f_op = OpEq, f_value = JStr ''TV''\<rparr>],
          top_n = None, sort_by = None\<rparr>"
  by code_simp

section \<open>Properties of the loader\<close>

lemma get_set_cell: "get (set_cell c v r) c' = (if c' = c then v else get r c')"
  by (induction r) (auto simp: get_def)

lemma length_series: "length (series df c) = length (df_rows df)"
  by (simp add: series_def)

lemma length_assign:
  "length vs = length (df_rows df) \<Longrightarrow> length (df_rows (assign c vs df)) = length (df_rows df)"
  by (simp add: assign_def)

lemma series_assign:
  assumes "length vs = length (df_rows df)"
  shows "series (assign c vs df) c' = (if c' = c then vs else series df c')"
  using assms by (auto simp: series_def assign_def get_set_cell list_eq_iff_nth_eq)

lemma length_numeric_column: "length (numeric_column L vs) = length vs"
  by (simp add: numeric_column_def)

lemma length_to_numeric: "length (to_numeric L vs) = length vs"
  by (simp add: to_numeric_def length_numeric_column)

lemma length_group_numbers: "length (group_numbers L gs) = length gs"
  by (simp add: group_numbers_def length_numeric_column)

lemma length_fillna: "length ys = length xs \<Longrightarrow> length (fillna L xs ys) = length xs"
  by (simp add: fillna_def)

lemma length_parsed: "length (spec_parsed_dates L df) = length (df_rows df)"
  by (simp add: spec_parsed_dates_def)

lemma length_numeric_or_pattern: "length (numeric_or_pattern L p vs) = length vs"
  by (simp add: numeric_or_pattern_def Let_def length_fillna length_to_numeric
        length_group_numbers str_extract_def astype_str_def)

lemma length_coerced_quarter: "length (spec_coerced_quarter L df) = length (df_rows df)"
  by (simp add: spec_coerced_quarter_def length_fillna length_numeric_or_pattern
        length_series length_parsed dt_quarter_def)

lemma length_coerced_month: "length (spec_coerced_month L df) = length (df_rows df)"
  by (simp add: spec_coerced_month_def length_fillna length_numeric_or_pattern
        length_series length_parsed dt_month_def)

lemma list_ex_nth: "i < length xs \<Longrightarrow> P (xs ! i) \<Longrightarrow> list_ex P xs"
  by (auto simp: list_ex_iff)

lemma length_parse_date: "length (df_rows (parse_date L dc df)) = length (df_rows df)"
  by (simp add: parse_date_def length_assign)

lemma series_parse_date:
  "series (parse_date L ''date'' df) c =
     (if c = ''date'' then spec_parsed_dates L df else series df c)"
  by (simp add: parse_date_def series_assign spec_parsed_dates_def)

lemma length_quarter_parsing: "length (df_rows (quarter_parsing L df)) = length (df_rows df)"
  by (simp add: quarter_parsing_def length_assign length_numeric_or_pattern length_series)

lemma series_quarter_parsing:
  "series (quarter_parsing L df) c =
     (if c = ''quarter'' then numeric_or_pattern L extract_quarter (series df ''quarter'')
      else series df c)"
  by (simp add: quarter_parsing_def series_assign length_numeric_or_pattern length_series)

lemma length_month_parsing: "length (df_rows (month_parsing L df)) = length (df_rows df)"
  by (simp add: month_parsing_def length_assign length_numeric_or_pattern length_series)

lemma series_month_parsing:
  "series (month_parsing L df) c =
     (if c = ''month'' then numeric_or_pattern L extract_month (series df ''month'')
      else series df c)"
  by (simp add: month_parsing_def series_assign length_numeric_or_pattern length_series)

lemma length_dt_quarter: "length (dt_quarter ds) = length ds"
  by (simp add: dt_quarter_def)

lemma length_dt_month: "length (dt_month ds) = length ds"
  by (simp add: dt_month_def)

lemma length_fallback: "length (df_rows (fallback_from_date L dc df)) = length (df_rows df)"
  by (simp add: fallback_from_date_def Let_def length_assign length_fillna length_series
        length_dt_quarter length_dt_month)

lemma series_fallback:
  "series (fallback_from_date L ''date'' df) c =
     (if c = ''month'' then fillna L (series df ''month'') (dt_month (series df ''date''))
      else if c = ''quarter'' then fillna L (series df ''quarter'') (dt_quarter (series df ''date''))
      else series df c)"
  by (simp add: fallback_from_date_def Let_def series_assign length_assign length_fillna
        length_series length_dt_quarter length_dt_month)

text \<open>The columns that \<open>_coerce_types\<close> checks are the columns the specification names.\<close>

lemma series_coerced:
  "series (fallback_from_date L ''date'' (month_parsing L (quarter_parsing L (parse_date L ''date'' df)))) c =
     (if c = ''month'' then spec_coerced_month L df
      else if c = ''quarter'' then spec_coerced_quarter L df
      else if c = ''date'' then spec_parsed_dates L df
      else series df c)"
  by (simp add: series_fallback series_month_parsing series_quarter_parsing series_parse_date
        spec_coerced_month_def spec_coerced_quarter_def)

lemma coerce_numeric_columns_series:
  "length (df_rows (coerce_numeric_columns L cols df)) = length (df_rows df) \<and>
   (c \<notin> set cols \<longrightarrow> series (coerce_numeric_columns L cols df) c = series df c) \<and>
   (distinct cols \<longrightarrow> c \<in> set cols \<longrightarrow>
      series (coerce_numeric_columns L cols df) c = to_numeric L (series df c))"
  unfolding coerce_numeric_columns_def
proof (induction cols arbitrary: df)
  case Nil
  show ?case by simp
next
  case (Cons a cols)
  let ?d = "assign a (to_numeric L (series df a)) df"
  have l: "length (df_rows ?d) = length (df_rows df)"
    by (simp add: length_assign length_to_numeric length_series)
  have s: "series ?d c' = (if c' = a then to_numeric L (series df a) else series df c')" for c'
    by (simp add: series_assign length_to_numeric length_series)
  from Cons.IH [of ?d] show ?case
    by (auto simp: l s)
qed

lemma list_ex_id_map: "list_ex id (map P xs) = list_ex P xs"
  by (simp add: list_ex_iff)

lemma coerce_types_unfold:
  "coerce_types L marketing_default df =
     (if list_ex isna (spec_parsed_dates L df)
      then Inl (ValueError ''Some rows have invalid Date values after parsing.'')
      else if list_ex (outside 1 4) (spec_coerced_quarter L df) \<or>
              list_ex (outside 1 12) (spec_coerced_month L df)
      then Inl (ValueError ''Some rows have invalid Quarter/Month values after parsing.'')
      else if list_ex isna (to_numeric L (series df ''revenue'')) \<or>
              list_ex isna (to_numeric L (series df ''cost''))
      then Inl (ValueError ''Some rows have invalid Revenue/Cost values after parsing.'')
      else Inr (coerce_numeric_columns L NUMERIC_COLUMNS
                  (fallback_from_date L ''date''
                     (month_parsing L (quarter_parsing L (parse_date L ''date'' df))))))"
proof -
  let ?d2 = "fallback_from_date L ''date'' (month_parsing L (quarter_parsing L (parse_date L ''date'' df)))"
  have d: "distinct NUMERIC_COLUMNS" "''revenue'' \<in> set NUMERIC_COLUMNS"
    "''cost'' \<in> set NUMERIC_COLUMNS"
    by (simp_all add: NUMERIC_COLUMNS_def)
  have r: "series (coerce_numeric_columns L NUMERIC_COLUMNS ?d2) ''revenue'' =
      to_numeric L (series df ''revenue'')"
    using coerce_numeric_columns_series [of L NUMERIC_COLUMNS ?d2 "''revenue''"] d
    by (simp add: series_coerced)
  have c: "series (coerce_numeric_columns L NUMERIC_COLUMNS ?d2) ''cost'' =
      to_numeric L (series df ''cost'')"
    using coerce_numeric_columns_series [of L NUMERIC_COLUMNS ?d2 "''cost''"] d
    by (simp add: series_coerced)
  have o: "(\<lambda>v. isna v \<or> \<not> between lo hi v) = outside lo hi" for lo hi
    by (simp add: outside_def fun_eq_iff)
  show ?thesis
    unfolding coerce_types_def Let_def list_ex_id_map o
    by (simp only: marketing_default_def DATE_COLUMN_def dataset_schema.simps series_parse_date
          series_coerced r c if_True if_False refl
          list.simps char.inject simp_thms)
qed

lemma load_Inl: "\<exists>e. coerce_types L S (normalize S csv) = Inl e \<Longrightarrow> \<exists>e. load L S csv = Inl e"
  by (auto simp: load_def split: option.splits)

lemma length_normalize: "length (df_rows (normalize S csv)) = length (df_rows csv)"
  by (simp add: normalize_def)

text \<open>
  C5. With the default schema, a frame one row of which has a date that does not parse, a
  quarter outside 1 to 4 or a month outside 1 to 12 after the numeric, pattern and date
  coercions, or a revenue or cost that is no number, does not load: \<open>load\<close> returns an
  error and no table.
\<close>

theorem load_fails_fast:
  assumes "i < length (df_rows csv)"
    and "spec_bad_row L (normalize marketing_default csv) i"
  shows "\<exists>e. load L marketing_default csv = Inl e"
proof -
  let ?df = "normalize marketing_default csv"
  have i: "i < length (df_rows ?df)"
    using assms(1) by (simp add: length_normalize)
  from assms(2) consider
      (d) "to_datetime L (series ?df ''date'') i = None"
    | (q) "outside 1 4 (spec_coerced_quarter L ?df ! i)"
    | (m) "outside 1 12 (spec_coerced_month L ?df ! i)"
    | (r) "isna (to_numeric L (series ?df ''revenue'') ! i)"
    | (c) "isna (to_numeric L (series ?df ''cost'') ! i)"
    by (auto simp: spec_bad_row_def)
  then have "list_ex isna (spec_parsed_dates L ?df) \<or>
      list_ex (outside 1 4) (spec_coerced_quarter L ?df) \<or>
      list_ex (outside 1 12) (spec_coerced_month L ?df) \<or>
      list_ex isna (to_numeric L (series ?df ''revenue'')) \<or>
      list_ex isna (to_numeric L (series ?df ''cost''))"
  proof cases
    case d
    with i have "isna (spec_parsed_dates L ?df ! i)"
      by (simp add: spec_parsed_dates_def time_cell_def isna_def)
    with i have "list_ex isna (spec_parsed_dates L ?df)"
      by (simp add: list_ex_nth length_parsed)
    then show ?thesis by blast
  next
    case q
    with i have "list_ex (outside 1 4) (spec_coerced_quarter L ?df)"
      by (simp add: list_ex_nth length_coerced_quarter)
    then show ?thesis by blast
  next
    case m
    with i have "list_ex (outside 1 12) (spec_coerced_month L ?df)"
      by (simp add: list_ex_nth length_coerced_month)
    then show ?thesis by blast
  next
    case r
    with i have "list_ex isna (to_numeric L (series ?df ''revenue''))"
      by (simp add: list_ex_nth length_to_numeric length_series)
    then show ?thesis by blast
  next
    case c
    with i have "list_ex isna (to_numeric L (series ?df ''cost''))"
      by (simp add: list_ex_nth length_to_numeric length_series)
    then show ?thesis by blast
  qed
  then have "\<exists>e. coerce_types L marketing_default ?df = Inl e"
    by (auto simp: coerce_types_unfold)
  then show ?thesis
    by (rule load_Inl)
qed

theorem load_fails_fast_witness:
  "(1::nat) < length (df_rows example_bad_month) \<and>
   spec_bad_row (example_pandas id) (normalize marketing_default example_bad_month) 1 \<and>
   (\<exists>e. load (example_pandas id) marketing_default example_bad_month = Inl e) \<and>
   load (example_pandas id) marketing_default example_bad_month =
     Inl (ValueError ''Some rows have invalid Quarter/Month values after parsing.'') \<and>
   spec_coerced_month (example_pandas id) (normalize marketing_default example_bad_month) =
     [CFloat (FNum 1), CFloat (FNum 13)]"
proof -
  have a: "(1::nat) < length (df_rows example_bad_month)"
    by (simp add: example_bad_month_def)
  have b: "spec_bad_row (example_pandas id) (normalize marketing_default example_bad_month) 1"
    by code_simp
  have c: "load (example_pandas id) marketing_default example_bad_month =
     Inl (ValueError ''Some rows have invalid Quarter/Month values after parsing.'')"
    by code_simp
  have d: "spec_coerced_month (example_pandas id) (normalize marketing_default example_bad_month) =
     [CFloat (FNum 1), CFloat (FNum 13)]"
    by code_simp
  from load_fails_fast [OF a b] a b c d show ?thesis
    by blast
qed

text \<open>The other kinds of bad row, and the two patterns on texts with a no-break space.\<close>

lemma bad_rows_examples:
  "load (example_pandas h) marketing_default example_bad_quarter =
     Inl (ValueError ''Some rows have invalid Quarter/Month values after parsing.'') \<and>
   load (example_pandas h) marketing_default example_bad_date =
     Inl (ValueError ''Some rows have invalid Date values after parsing.'') \<and>
   load (example_pandas h) marketing_default example_bad_revenue =
     Inl (ValueError ''Some rows have invalid Revenue/Cost values after parsing.'') \<and>
   load (example_pandas h) marketing_default (example_csv_one\<lparr>df_rows := []\<rparr>) =
     Inl (ValueError ''Cannot set a DataFrame with multiple columns to the single column row_id'')"
  by code_simp

lemma extract_examples:
  "extract_month [CHR ''M'', CHR 0xA0, CHR ''1'', CHR ''3''] = Some ''13'' \<and>
   extract_month [CHR ''M'', CHR 0xA0, CHR ''1'', CHR '' '', CHR ''M'', CHR ''1'', CHR ''3''] = Some ''1'' \<and>
   extract_month ''2020M08'' = Some ''08'' \<and>
   extract_month ''M 123'' = Some ''12'' \<and>
   extract_month ''Mx M7'' = Some ''7'' \<and>
   extract_month ''m8'' = None \<and>
   extract_quarter ''2020 Q3'' = Some ''3'' \<and>
   extract_quarter [CHR ''Q'', CHR 0x85, CHR ''4''] = Some ''4'' \<and>
   extract_quarter ''Q5 Q2'' = Some ''2'' \<and>
   extract_quarter ''Q 7'' = None"
  by code_simp

text \<open>
  C4. The row \<open>2023,1,1,1,2023-01-02,IT,TV,Rai,Brand,Promo,P1,Spring,100,40\<close> loaded
  alone has quarter 1 in an int64 column and the identifier of a key that holds
  \<open>quarter=1\<close>; loaded with a second row whose quarter is written \<open>Q2\<close> it has
  quarter 1 in a float64 column and the identifier of a key that holds \<open>quarter=1.0\<close>,
  whatever the digest is: the key of a row follows the type of its columns, which the
  other rows of the file decide.
\<close>

theorem row_id_follows_column_type:
  "map_sum id (\<lambda>res. series (loaded_df res) ''quarter'')
       (load (example_pandas h) marketing_default example_csv_one) = Inr [CInt 1] \<and>
   map_sum id row_ids (load (example_pandas h) marketing_default example_csv_one) =
     Inr [CStr (take 16 (h (''year=2023|quarter=1|month=1|week=1|date=2023-01-02|country=IT|'' @
                            ''media_category=TV|media_name=Rai|communication=Brand|'' @
                            ''campaign_category=Promo|product=P1|campaign_name=Spring|'' @
                            ''revenue=100|cost=40'')))] \<and>
   map_sum id (\<lambda>res. series (loaded_df res) ''quarter'')
       (load (example_pandas h) marketing_default example_csv_two) =
     Inr [CFloat (FNum 1), CFloat (FNum 2)] \<and>
   map_sum id row_ids (load (example_pandas h) marketing_default example_csv_two) =
     Inr [CStr (take 16 (h (''year=2023|quarter=1.0|month=1|week=1|date=2023-01-02|country=IT|'' @
                            ''media_category=TV|media_name=Rai|communication=Brand|'' @
                            ''campaign_category=Promo|product=P1|campaign_name=Spring|'' @
                            ''revenue=100|cost=40''))),
          CStr (take 16 (h (''year=2023|quarter=2.0|month=5|week=1|date=2023-05-08|country=IT|'' @
                            ''media_category=TV|media_name=Rai|communication=Brand|'' @
                            ''campaign_category=Promo|product=P1|campaign_name=Spring|'' @
                            ''revenue=70|cost=10'')))]"
  by code_simp

end
